theory Spec2Isabelle
  imports Complex_Main
begin

section \<open>Strings as the parser sees them\<close>

text \<open>
  A string is a list of code units; only code units below 256 are represented. The
  white space that \<^verbatim>\<open>String.prototype.trim\<close> and \<^verbatim>\<open>parseInt\<close> skip is then TAB, LF, VT,
  FF, CR, SPACE and NBSP.
\<close>

definition js_space :: "char \<Rightarrow> bool" where
  "js_space c = (of_char c \<in> {9, 10, 11, 12, 13, 32, 160 :: nat})"

definition js_trim :: "string \<Rightarrow> string" where
  "js_trim s = rev (dropWhile js_space (rev (dropWhile js_space s)))"

definition startsWith :: "string \<Rightarrow> string \<Rightarrow> bool" where
  "startsWith s p = (take (length p) s = p)"

fun includes_str :: "string \<Rightarrow> string \<Rightarrow> bool" where
  "includes_str [] p = (p = [])"
| "includes_str (c # cs) p = (startsWith (c # cs) p \<or> includes_str cs p)"

definition digit_val :: "char \<Rightarrow> nat option" where
  "digit_val c =
     (let n = of_char c :: nat in
      if 48 \<le> n \<and> n \<le> 57 then Some (n - 48)
      else if 97 \<le> n \<and> n \<le> 122 then Some (n - 87)
      else if 65 \<le> n \<and> n \<le> 90 then Some (n - 55)
      else None)"

definition is_digit :: "nat \<Rightarrow> char \<Rightarrow> bool" where
  "is_digit radix c = (case digit_val c of None \<Rightarrow> False | Some d \<Rightarrow> d < radix)"

definition digits_val :: "nat \<Rightarrow> string \<Rightarrow> nat" where
  "digits_val radix ds = foldl (\<lambda>acc c. acc * radix + the (digit_val c)) 0 ds"

text \<open>
  \<^verbatim>\<open>parseInt(s, radix)\<close> for a radix of 10 or 16: leading white space and one sign are
  skipped, the longest run of digits is read, and the result is NaN (\<open>None\<close>) when that
  run is empty. Results are exact integers.
\<close>

definition parse_digits :: "nat \<Rightarrow> string \<Rightarrow> nat option" where
  "parse_digits radix s =
     (let ds = takeWhile (is_digit radix) s in
      if ds = [] then None else Some (digits_val radix ds))"

definition strip_sign :: "string \<Rightarrow> bool \<times> string" where
  "strip_sign s =
     (case s of
        c # cs \<Rightarrow> if c = CHR ''-'' then (True, cs) else if c = CHR ''+'' then (False, cs) else (False, s)
      | [] \<Rightarrow> (False, s))"

definition apply_sign :: "bool \<Rightarrow> nat option \<Rightarrow> int option" where
  "apply_sign neg r = map_option (\<lambda>n. if neg then - int n else int n) r"

definition parseInt10 :: "string \<Rightarrow> int option" where
  "parseInt10 s =
     (let (neg, body) = strip_sign (dropWhile js_space s) in
      apply_sign neg (parse_digits 10 body))"

text \<open>
  \<^verbatim>\<open>parseInt(s)\<close> without a radix: as above, except that a body starting with
  \<^verbatim>\<open>0x\<close> or \<^verbatim>\<open>0X\<close> is read in base 16.
\<close>

definition parseInt :: "string \<Rightarrow> int option" where
  "parseInt s =
     (let (neg, body) = strip_sign (dropWhile js_space s) in
      if startsWith body ''0x'' \<or> startsWith body ''0X''
      then apply_sign neg (parse_digits 16 (drop 2 body))
      else apply_sign neg (parse_digits 10 body))"

definition toLowerCase :: "string \<Rightarrow> string" where
  "toLowerCase s =
     map (\<lambda>c. let n = of_char c :: nat in
                if (65 \<le> n \<and> n \<le> 90) \<or> (192 \<le> n \<and> n \<le> 222 \<and> n \<noteq> 215)
                then char_of (n + 32) else c) s"

definition str_or :: "string option \<Rightarrow> string \<Rightarrow> string" where
  \<comment> \<open>\<^verbatim>\<open>v || d\<close> for a value that is a string or undefined\<close>
  "str_or v d = (case v of None \<Rightarrow> d | Some s \<Rightarrow> if s = [] then d else s)"

definition str_truthy :: "string option \<Rightarrow> bool" where
  "str_truthy v = (case v of None \<Rightarrow> False | Some s \<Rightarrow> s \<noteq> [])"

section \<open>Numbers\<close>

text \<open>
  A number is an exact real or NaN (\<open>None\<close>); rounding of doubles and the infinities
  are not represented. Comparisons with NaN are false, arithmetic on NaN gives NaN.
\<close>

type_synonym jsnum = "real option"

definition num_of_int :: "int option \<Rightarrow> jsnum" where
  "num_of_int v = map_option real_of_int v"

definition num_lift2 :: "(real \<Rightarrow> real \<Rightarrow> real) \<Rightarrow> jsnum \<Rightarrow> jsnum \<Rightarrow> jsnum" where
  "num_lift2 f a b = (case (a, b) of (Some u, Some v) \<Rightarrow> Some (f u v) | _ \<Rightarrow> None)"

definition num_add :: "jsnum \<Rightarrow> jsnum \<Rightarrow> jsnum" where
  "num_add = num_lift2 (+)"

definition num_sub :: "jsnum \<Rightarrow> jsnum \<Rightarrow> jsnum" where
  "num_sub = num_lift2 (-)"

definition num_mul :: "jsnum \<Rightarrow> jsnum \<Rightarrow> jsnum" where
  "num_mul = num_lift2 (*)"

definition num_div :: "jsnum \<Rightarrow> real \<Rightarrow> jsnum" where
  \<comment> \<open>division by a non-zero constant\<close>
  "num_div a d = map_option (\<lambda>u. u / d) a"

definition num_lt :: "jsnum \<Rightarrow> jsnum \<Rightarrow> bool" where
  "num_lt a b = (case (a, b) of (Some u, Some v) \<Rightarrow> u < v | _ \<Rightarrow> False)"

definition num_le :: "jsnum \<Rightarrow> jsnum \<Rightarrow> bool" where
  "num_le a b = (case (a, b) of (Some u, Some v) \<Rightarrow> u \<le> v | _ \<Rightarrow> False)"

definition Math_round :: "jsnum \<Rightarrow> int option" where
  "Math_round a = map_option (\<lambda>u. \<lfloor>u + 1 / 2\<rfloor>) a"

definition Math_min :: "jsnum \<Rightarrow> jsnum \<Rightarrow> jsnum" where
  "Math_min = num_lift2 min"

definition Math_max :: "jsnum \<Rightarrow> jsnum \<Rightarrow> jsnum" where
  "Math_max = num_lift2 max"

definition hex_digit :: "nat \<Rightarrow> char" where
  "hex_digit d = (if d < 10 then char_of (48 + d) else char_of (87 + d))"

function nat_to_base :: "nat \<Rightarrow> nat \<Rightarrow> string" where
  "nat_to_base b n =
     (if b < 2 \<or> n < b then [hex_digit n]
      else nat_to_base b (n div b) @ [hex_digit (n mod b)])"
  by pat_completeness auto
termination
  by (relation "measure snd") auto

definition int_toString :: "nat \<Rightarrow> int option \<Rightarrow> string" where
  \<comment> \<open>\<^verbatim>\<open>n.toString(radix)\<close> for an integral number or NaN\<close>
  "int_toString radix v =
     (case v of
        None \<Rightarrow> ''NaN''
      | Some i \<Rightarrow> if i < 0 then CHR ''-'' # nat_to_base radix (nat (- i))
                  else nat_to_base radix (nat i))"

text \<open>
  \<^verbatim>\<open>parseFloat(s)\<close> on decimal literals: white space, a sign, digits with an optional
  fraction, an optional exponent. The literal \<^verbatim>\<open>Infinity\<close> is read as NaN here.
\<close>

definition parse_exponent :: "string \<Rightarrow> int" where
  "parse_exponent s =
     (case s of
        [] \<Rightarrow> 0
      | c # cs \<Rightarrow>
          if c = CHR ''e'' \<or> c = CHR ''E''
          then (let (neg, body) = strip_sign cs in
                case apply_sign neg (parse_digits 10 body) of None \<Rightarrow> 0 | Some e \<Rightarrow> e)
          else 0)"

definition pow10 :: "int \<Rightarrow> real" where
  "pow10 e = (if 0 \<le> e then 10 ^ nat e else 1 / 10 ^ nat (- e))"

definition parseFloat :: "string \<Rightarrow> jsnum" where
  "parseFloat s =
     (let (neg, body) = strip_sign (dropWhile js_space s);
          ip = takeWhile (is_digit 10) body;
          rest = dropWhile (is_digit 10) body;
          fp = (case rest of c # cs \<Rightarrow> if c = CHR ''.'' then takeWhile (is_digit 10) cs else [] | [] \<Rightarrow> []);
          rest' = (case rest of c # cs \<Rightarrow> if c = CHR ''.'' then dropWhile (is_digit 10) cs else rest | [] \<Rightarrow> [])
      in if ip = [] \<and> fp = [] then None
         else (let m = real (digits_val 10 ip) + real (digits_val 10 fp) / 10 ^ length fp;
                   v = m * pow10 (parse_exponent rest')
               in Some (if neg then - v else v)))"

section \<open>The normalised XML tree\<close>

text \<open>
  Modelled from the spec: the declaration of the node type is outside these sources.
  The tree the XML normaliser hands to the parsers: an element is an object with an
  optional attribute group (attribute name to string value, read in the source through
  the reserved key \<^verbatim>\<open>attrs\<close>) and its children in key order; an element without
  attributes or children is the empty string; repeated children are an array.
  The parsers create the normaliser without switching off its reading of tag values,
  so the text of an element that reads as a number, or as \<^verbatim>\<open>true\<close> or \<^verbatim>\<open>false\<close>,
  arrives as a number or a boolean and not as a string; attribute values stay
  strings. \<open>XUndef\<close> is \<^verbatim>\<open>undefined\<close>.
\<close>

datatype xml =
    XUndef
  | XStr string
  | XNum real
  | XBool bool
  | XObj "(string \<times> string) list option" "(string \<times> xml) list"
  | XArr "xml list"

definition truthy :: "xml \<Rightarrow> bool" where
  "truthy v =
     (case v of XUndef \<Rightarrow> False | XStr s \<Rightarrow> s \<noteq> [] | XNum n \<Rightarrow> n \<noteq> 0 | XBool b \<Rightarrow> b | _ \<Rightarrow> True)"

definition child :: "xml \<Rightarrow> string \<Rightarrow> xml" where
  \<comment> \<open>\<^verbatim>\<open>v?.[key]\<close> for a child key\<close>
  "child v k =
     (case v of
        XObj _ kids \<Rightarrow> (case map_of kids k of None \<Rightarrow> XUndef | Some c \<Rightarrow> c)
      | _ \<Rightarrow> XUndef)"

definition attrs :: "xml \<Rightarrow> (string \<times> string) list option" where
  \<comment> \<open>\<^verbatim>\<open>v?.['attrs']\<close>\<close>
  "attrs v = (case v of XObj a _ \<Rightarrow> a | _ \<Rightarrow> None)"

definition attrs_or_empty :: "xml \<Rightarrow> (string \<times> string) list" where
  \<comment> \<open>\<^verbatim>\<open>v?.['attrs'] || {}\<close>\<close>
  "attrs_or_empty v = (case attrs v of None \<Rightarrow> [] | Some a \<Rightarrow> a)"

definition attr :: "xml \<Rightarrow> string \<Rightarrow> string option" where
  \<comment> \<open>\<^verbatim>\<open>v?.['attrs']?.[name]\<close>\<close>
  "attr v n = (case attrs v of None \<Rightarrow> None | Some a \<Rightarrow> map_of a n)"

definition as_array :: "xml \<Rightarrow> xml list" where
  \<comment> \<open>\<^verbatim>\<open>Array.isArray(v) ? v : [v]\<close>\<close>
  "as_array v = (case v of XArr xs \<Rightarrow> xs | _ \<Rightarrow> [v])"

definition getTextByPathList :: "xml \<Rightarrow> string list \<Rightarrow> xml" where
  \<comment> \<open>the walk along child keys; a trailing \<^verbatim>\<open>attrs\<close> step is read with \<open>attrs\<close> and \<open>attr\<close>\<close>
  "getTextByPathList obj pathList = (if \<not> truthy obj then XUndef else foldl child obj pathList)"

record ParsingContext =
  slideContent :: xml
  slideLayoutContent :: xml
  slideMasterContent :: xml
  themeContent :: xml

section \<open>Table lookups and exceptions\<close>

text \<open>
  A table written as an object literal answers a key that is none of its own with the
  member of that name that every object inherits, when there is one: a function, or for
  \<^verbatim>\<open>__proto__\<close> the prototype object. Such a member is truthy, is no string and has
  no string methods.
\<close>

datatype jsval = JStr string | JMember string

definition Object_prototype_names :: "string list" where
  "Object_prototype_names =
     [''constructor'', ''__defineGetter__'', ''__defineSetter__'', ''hasOwnProperty'',
      ''__lookupGetter__'', ''__lookupSetter__'', ''isPrototypeOf'', ''propertyIsEnumerable'',
      ''toString'', ''valueOf'', ''__proto__'', ''toLocaleString'']"

definition table_get :: "(string \<times> string) list \<Rightarrow> string \<Rightarrow> jsval option" where
  \<comment> \<open>\<^verbatim>\<open>table[key]\<close>; \<open>None\<close> is \<^verbatim>\<open>undefined\<close>\<close>
  "table_get table key =
     (case map_of table key of
        Some v \<Rightarrow> Some (JStr v)
      | None \<Rightarrow> if key \<in> set Object_prototype_names then Some (JMember key) else None)"

definition jsval_truthy :: "jsval \<Rightarrow> bool" where
  "jsval_truthy v = (case v of JStr s \<Rightarrow> s \<noteq> [] | JMember _ \<Rightarrow> True)"

definition jsval_or :: "jsval option \<Rightarrow> string \<Rightarrow> jsval" where
  \<comment> \<open>\<^verbatim>\<open>v || d\<close> for a value read from a table\<close>
  "jsval_or v d = (case v of None \<Rightarrow> JStr d | Some u \<Rightarrow> if jsval_truthy u then u else JStr d)"

text \<open>
  The exceptions of the parsers: the \<^verbatim>\<open>TypeError\<close> of the runtime (a property of
  \<^verbatim>\<open>undefined\<close> is read, or a method is called that the value does not have), and the
  conversion error of the service with its code.
\<close>

datatype js_error = TypeError | ConversionError string

section \<open>The colour library\<close>

text \<open>
  The resolver calls a third-party colour library for the conversions between hex
  strings and HSL. The calls it makes are the fields of this record; every theorem
  about the resolver holds for any such library. The library is handed whatever value
  the resolver holds as a colour, a string or not.
\<close>

record hsl =
  hsl_h :: real
  hsl_s :: real
  hsl_l :: real
  hsl_a :: real

record tinycolor =
  toHsl :: "jsval \<Rightarrow> hsl"
  hslToHex :: "hsl \<Rightarrow> string"
  hslToHex8 :: "hsl \<Rightarrow> string"
  setAlphaToHex8 :: "jsval \<Rightarrow> real \<Rightarrow> string"

section \<open>Colour resolver\<close>

definition PRESET_COLORS :: "(string \<times> string) list" where
  "PRESET_COLORS =
    [
     (''white'', ''FFFFFF''), (''black'', ''000000''), (''red'', ''FF0000''),
     (''green'', ''00FF00''), (''blue'', ''0000FF''), (''yellow'', ''FFFF00''),
     (''cyan'', ''00FFFF''), (''magenta'', ''FF00FF''), (''aliceblue'', ''F0F8FF''),
     (''antiquewhite'', ''FAEBD7''), (''aqua'', ''00FFFF''), (''aquamarine'', ''7FFFD4''),
     (''azure'', ''F0FFFF''), (''beige'', ''F5F5DC''), (''bisque'', ''FFE4C4''),
     (''blanchedalmond'', ''FFEBCD''), (''blueviolet'', ''8A2BE2''), (''brown'', ''A52A2A''),
     (''burlywood'', ''DEB887''), (''cadetblue'', ''5F9EA0''), (''chartreuse'', ''7FFF00''),
     (''chocolate'', ''D2691E''), (''coral'', ''FF7F50''), (''cornflowerblue'', ''6495ED''),
     (''cornsilk'', ''FFF8DC''), (''crimson'', ''DC143C''), (''darkblue'', ''00008B''),
     (''darkcyan'', ''008B8B''), (''darkgoldenrod'', ''B8860B''), (''darkgray'', ''A9A9A9''),
     (''darkgrey'', ''A9A9A9''), (''darkgreen'', ''006400''), (''darkkhaki'', ''BDB76B''),
     (''darkmagenta'', ''8B008B''), (''darkolivegreen'', ''556B2F''), (''darkorange'', ''FF8C00''),
     (''darkorchid'', ''9932CC''), (''darkred'', ''8B0000''), (''darksalmon'', ''E9967A''),
     (''darkseagreen'', ''8FBC8F''), (''darkslateblue'', ''483D8B''), (''darkslategray'', ''2F4F4F''),
     (''darkslategrey'', ''2F4F4F''), (''darkturquoise'', ''00CED1''), (''darkviolet'', ''9400D3''),
     (''deeppink'', ''FF1493''), (''deepskyblue'', ''00BFFF''), (''dimgray'', ''696969''),
     (''dimgrey'', ''696969''), (''dodgerblue'', ''1E90FF''), (''firebrick'', ''B22222''),
     (''floralwhite'', ''FFFAF0''), (''forestgreen'', ''228B22''), (''fuchsia'', ''FF00FF''),
     (''gainsboro'', ''DCDCDC''), (''ghostwhite'', ''F8F8FF''), (''gold'', ''FFD700''),
     (''goldenrod'', ''DAA520''), (''gray'', ''808080''), (''grey'', ''808080''),
     (''greenyellow'', ''ADFF2F''), (''honeydew'', ''F0FFF0''), (''hotpink'', ''FF69B4''),
     (''indianred'', ''CD5C5C''), (''indigo'', ''4B0082''), (''ivory'', ''FFFFF0''),
     (''khaki'', ''F0E68C''), (''lavender'', ''E6E6FA''), (''lavenderblush'', ''FFF0F5''),
     (''lawngreen'', ''7CFC00''), (''lemonchiffon'', ''FFFACD''), (''lightblue'', ''ADD8E6''),
     (''lightcoral'', ''F08080''), (''lightcyan'', ''E0FFFF''), (''lightgoldenrodyellow'', ''FAFAD2''),
     (''lightgray'', ''D3D3D3''), (''lightgrey'', ''D3D3D3''), (''lightgreen'', ''90EE90''),
     (''lightpink'', ''FFB6C1''), (''lightsalmon'', ''FFA07A''), (''lightseagreen'', ''20B2AA''),
     (''lightskyblue'', ''87CEFA''), (''lightslategray'', ''778899''), (''lightslategrey'', ''778899''),
     (''lightsteelblue'', ''B0C4DE''), (''lightyellow'', ''FFFFE0''), (''lime'', ''00FF00''),
     (''limegreen'', ''32CD32''), (''linen'', ''FAF0E6''), (''maroon'', ''800000''),
     (''mediumaquamarine'', ''66CDAA''), (''mediumblue'', ''0000CD''), (''mediumorchid'', ''BA55D3''),
     (''mediumpurple'', ''9370DB''), (''mediumseagreen'', ''3CB371''), (''mediumslateblue'', ''7B68EE''),
     (''mediumspringgreen'', ''00FA9A''), (''mediumturquoise'', ''48D1CC''), (''mediumvioletred'', ''C71585''),
     (''midnightblue'', ''191970''), (''mintcream'', ''F5FFFA''), (''mistyrose'', ''FFE4E1''),
     (''moccasin'', ''FFE4B5''), (''navajowhite'', ''FFDEAD''), (''navy'', ''000080''),
     (''oldlace'', ''FDF5E6''), (''olive'', ''808000''), (''olivedrab'', ''6B8E23''),
     (''orange'', ''FFA500''), (''orangered'', ''FF4500''), (''orchid'', ''DA70D6''),
     (''palegoldenrod'', ''EEE8AA''), (''palegreen'', ''98FB98''), (''paleturquoise'', ''AFEEEE''),
     (''palevioletred'', ''DB7093''), (''papayawhip'', ''FFEFD5''), (''peachpuff'', ''FFDAB9''),
     (''peru'', ''CD853F''), (''pink'', ''FFC0CB''), (''plum'', ''DDA0DD''),
     (''powderblue'', ''B0E0E6''), (''purple'', ''800080''), (''rebeccapurple'', ''663399''),
     (''rosybrown'', ''BC8F8F''), (''royalblue'', ''4169E1''), (''saddlebrown'', ''8B4513''),
     (''salmon'', ''FA8072''), (''sandybrown'', ''F4A460''), (''seagreen'', ''2E8B57''),
     (''seashell'', ''FFF5EE''), (''sienna'', ''A0522D''), (''silver'', ''C0C0C0''),
     (''skyblue'', ''87CEEB''), (''slateblue'', ''6A5ACD''), (''slategray'', ''708090''),
     (''slategrey'', ''708090''), (''snow'', ''FFFAFA''), (''springgreen'', ''00FF7F''),
     (''steelblue'', ''4682B4''), (''tan'', ''D2B48C''), (''teal'', ''008080''),
     (''thistle'', ''D8BFD8''), (''tomato'', ''FF6347''), (''turquoise'', ''40E0D0''),
     (''violet'', ''EE82EE''), (''wheat'', ''F5DEB3''), (''whitesmoke'', ''F5F5F5''),
     (''yellowgreen'', ''9ACD32'')
    ]"

fun hueToRgb :: "jsnum \<Rightarrow> jsnum \<Rightarrow> jsnum \<Rightarrow> jsnum" where
  "hueToRgb t1 t2 h0 =
     (let h1 = (if num_lt h0 (Some 0) then num_add h0 (Some 6) else h0);
          h = (if num_le (Some 6) h1 then num_sub h1 (Some 6) else h1)
      in if num_lt h (Some 1) then num_add (num_mul (num_sub t2 t1) h) t1
         else if num_lt h (Some 3) then t2
         else if num_lt h (Some 4) then num_add (num_mul (num_sub t2 t1) (num_sub (Some 4) h)) t1
         else t1)"

definition hslToRgb :: "jsnum \<Rightarrow> jsnum \<Rightarrow> jsnum \<Rightarrow> int option \<times> int option \<times> int option" where
  "hslToRgb hue sat light =
     (let hueNorm = num_div hue 60;
          t2 = (if num_le light (Some (1 / 2)) then num_mul light (num_add sat (Some 1))
                else num_sub (num_add light sat) (num_mul light sat));
          t1 = num_sub (num_mul light (Some 2)) t2
      in (Math_round (num_mul (hueToRgb t1 t2 (num_add hueNorm (Some 2))) (Some 255)),
          Math_round (num_mul (hueToRgb t1 t2 hueNorm) (Some 255)),
          Math_round (num_mul (hueToRgb t1 t2 (num_sub hueNorm (Some 2))) (Some 255))))"

definition toHex :: "jsnum \<Rightarrow> string" where
  "toHex v =
     (let hex = int_toString 16 (Math_round (Math_min (Some 255) (Math_max (Some 0) v)))
      in if length hex = 1 then CHR ''0'' # hex else hex)"

definition hexOf :: "tinycolor \<Rightarrow> bool \<Rightarrow> hsl \<Rightarrow> string" where
  \<comment> \<open>\<^verbatim>\<open>hasAlpha ? tinycolor(newColor).toHex8() : tinycolor(newColor).toHex()\<close>\<close>
  "hexOf tc hasAlpha newColor = (if hasAlpha then hslToHex8 tc newColor else hslToHex tc newColor)"

text \<open>The \<^verbatim>\<open>newColor\<close> each modifier builds from the HSL form of its input.\<close>

definition shadeHsl :: "real \<Rightarrow> hsl \<Rightarrow> hsl" where
  "shadeHsl shadeValue color =
     (let shadeValue' = min shadeValue 1;
          newL = min (hsl_l color * shadeValue') 1
      in color\<lparr>hsl_l := newL\<rparr>)"

definition tintHsl :: "real \<Rightarrow> hsl \<Rightarrow> hsl" where
  "tintHsl tintValue color =
     (let tintValue' = min tintValue 1;
          newL = hsl_l color * tintValue' + (1 - tintValue')
      in color\<lparr>hsl_l := newL\<rparr>)"

definition lumOffHsl :: "real \<Rightarrow> hsl \<Rightarrow> hsl" where
  "lumOffHsl offset color = color\<lparr>hsl_l := min (offset + hsl_l color) 1\<rparr>"

definition lumModHsl :: "real \<Rightarrow> hsl \<Rightarrow> hsl" where
  "lumModHsl multiplier color = color\<lparr>hsl_l := min (hsl_l color * multiplier) 1\<rparr>"

definition hueModHsl :: "real \<Rightarrow> hsl \<Rightarrow> hsl" where
  "hueModHsl multiplier color =
     (let newH = hsl_h color * multiplier;
          newH' = (if newH \<ge> 360 then newH - 360 else newH)
      in color\<lparr>hsl_h := newH'\<rparr>)"

definition satModHsl :: "real \<Rightarrow> hsl \<Rightarrow> hsl" where
  "satModHsl multiplier color = color\<lparr>hsl_s := min (hsl_s color * multiplier) 1\<rparr>"

definition applyShade :: "tinycolor \<Rightarrow> jsval \<Rightarrow> real \<Rightarrow> bool \<Rightarrow> string" where
  "applyShade tc hexColor shadeValue hasAlpha = hexOf tc hasAlpha (shadeHsl shadeValue (toHsl tc hexColor))"

definition applyTint :: "tinycolor \<Rightarrow> jsval \<Rightarrow> real \<Rightarrow> bool \<Rightarrow> string" where
  "applyTint tc hexColor tintValue hasAlpha = hexOf tc hasAlpha (tintHsl tintValue (toHsl tc hexColor))"

definition applyLumOff :: "tinycolor \<Rightarrow> jsval \<Rightarrow> real \<Rightarrow> bool \<Rightarrow> string" where
  "applyLumOff tc hexColor offset hasAlpha = hexOf tc hasAlpha (lumOffHsl offset (toHsl tc hexColor))"

definition applyLumMod :: "tinycolor \<Rightarrow> jsval \<Rightarrow> real \<Rightarrow> bool \<Rightarrow> string" where
  "applyLumMod tc hexColor multiplier hasAlpha = hexOf tc hasAlpha (lumModHsl multiplier (toHsl tc hexColor))"

definition applyHueMod :: "tinycolor \<Rightarrow> jsval \<Rightarrow> real \<Rightarrow> bool \<Rightarrow> string" where
  "applyHueMod tc hexColor multiplier hasAlpha = hexOf tc hasAlpha (hueModHsl multiplier (toHsl tc hexColor))"

definition applySatMod :: "tinycolor \<Rightarrow> jsval \<Rightarrow> real \<Rightarrow> bool \<Rightarrow> string" where
  "applySatMod tc hexColor multiplier hasAlpha = hexOf tc hasAlpha (satModHsl multiplier (toHsl tc hexColor))"

definition strip_a_prefix :: "string \<Rightarrow> string" where
  \<comment> \<open>\<^verbatim>\<open>s.replace(/^a:/, '')\<close>\<close>
  "strip_a_prefix s = (if startsWith s ''a:'' then drop 2 s else s)"

definition getSchemeColorFromTheme ::
  "string \<Rightarrow> ParsingContext \<Rightarrow> (string \<times> string) list option \<Rightarrow> string option \<Rightarrow> string" where
  "getSchemeColorFromTheme schemeClr context clrMap phClr =
     (let slideLayoutClrOvride =
            (case clrMap of
               Some m \<Rightarrow> Some m
             | None \<Rightarrow>
                 (case attrs (getTextByPathList (slideContent context)
                          [''p:sld'', ''p:clrMapOvr'', ''a:overrideClrMapping'']) of
                    Some sldClrMapOvr \<Rightarrow> Some sldClrMapOvr
                  | None \<Rightarrow>
                      (case attrs (getTextByPathList (slideLayoutContent context)
                               [''p:sldLayout'', ''p:clrMapOvr'', ''a:overrideClrMapping'']) of
                         Some layoutClrMapOvr \<Rightarrow> Some layoutClrMapOvr
                       | None \<Rightarrow>
                           attrs (getTextByPathList (slideMasterContent context)
                                    [''p:sldMaster'', ''p:clrMap'']))));
          schmClrName = strip_a_prefix schemeClr
      in if schmClrName = ''phClr'' \<and> str_truthy phClr then the phClr
         else
           (let mappedSchemeClr =
                  (case slideLayoutClrOvride of
                     Some ovr \<Rightarrow>
                       if schmClrName \<in> set [''tx1'', ''tx2'', ''bg1'', ''bg2'']
                       then ''a:'' @ str_or (map_of ovr schmClrName) schmClrName
                       else schemeClr
                   | None \<Rightarrow>
                       if schemeClr = ''tx1'' then ''a:dk1''
                       else if schemeClr = ''tx2'' then ''a:dk2''
                       else if schemeClr = ''bg1'' then ''a:lt1''
                       else if schemeClr = ''bg2'' then ''a:lt2''
                       else schemeClr);
                refNode = getTextByPathList (themeContent context)
                            [''a:theme'', ''a:themeElements'', ''a:clrScheme'', mappedSchemeClr];
                color = str_or (attr (child refNode ''a:srgbClr'') ''val'') []
            in if color = [] \<and> truthy refNode
               then str_or (attr (child refNode ''a:sysClr'') ''lastClr'') []
               else color))"

definition strip_percent :: "string \<Rightarrow> string" where
  \<comment> \<open>\<^verbatim>\<open>s.replace('%', '')\<close>: the first percent sign is removed\<close>
  "strip_percent s = takeWhile (\<lambda>c. c \<noteq> CHR ''%'') s @ drop 1 (dropWhile (\<lambda>c. c \<noteq> CHR ''%'') s)"

definition parseBaseColor ::
  "xml \<Rightarrow> ParsingContext \<Rightarrow> (string \<times> string) list option \<Rightarrow> string option \<Rightarrow> jsval \<times> xml" where
  "parseBaseColor solidFill context clrMap phClr =
     (if truthy (child solidFill ''a:srgbClr'') then
        (let clrNode = child solidFill ''a:srgbClr''
         in (JStr (str_or (attr clrNode ''val'') []), clrNode))
      else if truthy (child solidFill ''a:schemeClr'') then
        (let clrNode = child solidFill ''a:schemeClr'';
             schemeClr = ''a:'' @ str_or (attr clrNode ''val'') []
         in (JStr (getSchemeColorFromTheme schemeClr context clrMap phClr), clrNode))
      else if truthy (child solidFill ''a:scrgbClr'') then
        (let clrNode = child solidFill ''a:scrgbClr'';
             a = attrs_or_empty clrNode;
             r = num_div (parseFloat (strip_percent (str_or (map_of a ''r'') ''0''))) 100;
             g = num_div (parseFloat (strip_percent (str_or (map_of a ''g'') ''0''))) 100;
             b = num_div (parseFloat (strip_percent (str_or (map_of a ''b'') ''0''))) 100
         in (JStr (toHex (num_mul (Some 255) r) @ toHex (num_mul (Some 255) g)
                     @ toHex (num_mul (Some 255) b)),
             clrNode))
      else if truthy (child solidFill ''a:prstClr'') then
        (let clrNode = child solidFill ''a:prstClr'';
             prstClr = str_or (attr clrNode ''val'') []
         in (jsval_or (table_get PRESET_COLORS (toLowerCase prstClr)) ''000000'', clrNode))
      else if truthy (child solidFill ''a:hslClr'') then
        (let clrNode = child solidFill ''a:hslClr'';
             a = attrs_or_empty clrNode;
             hue = num_div (parseFloat (str_or (map_of a ''hue'') ''0'')) 100000;
             sat = num_div (parseFloat (strip_percent (str_or (map_of a ''sat'') ''0''))) 100;
             lum = num_div (parseFloat (strip_percent (str_or (map_of a ''lum'') ''0''))) 100;
             rgb = hslToRgb hue sat lum
         in (JStr (toHex (num_of_int (fst rgb)) @ toHex (num_of_int (fst (snd rgb)))
                     @ toHex (num_of_int (snd (snd rgb)))),
             clrNode))
      else if truthy (child solidFill ''a:sysClr'') then
        (let clrNode = child solidFill ''a:sysClr''
         in (JStr (str_or (attr clrNode ''lastClr'') []), clrNode))
      else (JStr [], XUndef))"

definition modifierValue :: "xml \<Rightarrow> string \<Rightarrow> real option" where
  \<comment> \<open>\<^verbatim>\<open>parseInt(getTextByPathList(clrNode, [key, 'attrs', 'val']) || '') / 100000\<close>;
      \<open>None\<close> when the result is NaN\<close>
  "modifierValue clrNode key =
     map_option (\<lambda>n. real_of_int n / 100000)
       (parseInt (str_or (attr (getTextByPathList clrNode [key]) ''val'') []))"

definition applyColorModifiers :: "tinycolor \<Rightarrow> jsval \<Rightarrow> xml \<Rightarrow> bool \<Rightarrow> jsval \<times> real option" where
  "applyColorModifiers tc color clrNode mergeAlpha =
     (let alphaValue = modifierValue clrNode ''a:alpha'';
          (resultColor0, alpha, hasAlpha) =
             (case alphaValue of
                None \<Rightarrow> (color, None, False)
              | Some a \<Rightarrow>
                  if mergeAlpha then (JStr (setAlphaToHex8 tc color a), None, True)
                  else (color, Some a, False));
          resultColor1 = (case modifierValue clrNode ''a:hueMod'' of
                            None \<Rightarrow> resultColor0
                          | Some hueMod \<Rightarrow> JStr (applyHueMod tc resultColor0 hueMod hasAlpha));
          resultColor2 = (case modifierValue clrNode ''a:lumMod'' of
                            None \<Rightarrow> resultColor1
                          | Some lumMod \<Rightarrow> JStr (applyLumMod tc resultColor1 lumMod hasAlpha));
          resultColor3 = (case modifierValue clrNode ''a:lumOff'' of
                            None \<Rightarrow> resultColor2
                          | Some lumOff \<Rightarrow> JStr (applyLumOff tc resultColor2 lumOff hasAlpha));
          resultColor4 = (case modifierValue clrNode ''a:satMod'' of
                            None \<Rightarrow> resultColor3
                          | Some satMod \<Rightarrow> JStr (applySatMod tc resultColor3 satMod hasAlpha));
          resultColor5 = (case modifierValue clrNode ''a:shade'' of
                            None \<Rightarrow> resultColor4
                          | Some shade \<Rightarrow> JStr (applyShade tc resultColor4 shade hasAlpha));
          resultColor6 = (case modifierValue clrNode ''a:tint'' of
                            None \<Rightarrow> resultColor5
                          | Some tint \<Rightarrow> JStr (applyTint tc resultColor5 tint hasAlpha))
      in (resultColor6, alpha))"

definition with_hash :: "jsval \<Rightarrow> js_error + string" where
  \<comment> \<open>the \<^verbatim>\<open>#\<close> prefix is added to a non-empty colour that lacks it; a colour that is
      no string has no \<^verbatim>\<open>startsWith\<close> to call\<close>
  "with_hash resultColor =
     (case resultColor of
        JStr s \<Rightarrow> Inr (if s \<noteq> [] \<and> \<not> startsWith s ''#'' then CHR ''#'' # s else s)
      | JMember _ \<Rightarrow> Inl TypeError)"

subsection \<open>A reference colour library\<close>

text \<open>
  The usual conversions between hex strings and HSL, on six- and eight-digit hex
  strings and exact numbers; any other input is read as black. It is used to run the
  resolver on sample inputs only.
\<close>

definition ref_parse :: "jsval \<Rightarrow> real \<times> real \<times> real \<times> real" where
  "ref_parse color =
     (case color of
        JMember _ \<Rightarrow> (0, 0, 0, 1)
      | JStr hexColor \<Rightarrow>
          (let h = (if startsWith hexColor ''#'' then drop 1 hexColor else hexColor)
           in if (length h = 6 \<or> length h = 8) \<and> list_all (is_digit 16) h
              then (real (digits_val 16 (take 2 h)), real (digits_val 16 (take 2 (drop 2 h))),
                    real (digits_val 16 (take 2 (drop 4 h))),
                    (if length h = 8 then real (digits_val 16 (take 2 (drop 6 h))) / 255 else 1))
              else (0, 0, 0, 1)))"

definition ref_rgbToHsl :: "real \<Rightarrow> real \<Rightarrow> real \<Rightarrow> real \<times> real \<times> real" where
  "ref_rgbToHsl r g b =
     (let mx = max r (max g b); mn = min r (min g b); l = (mx + mn) / 2
      in if mx = mn then (0, 0, l)
         else
           (let d = mx - mn;
                s = (if l > 1 / 2 then d / (2 - mx - mn) else d / (mx + mn));
                h = (if mx = r then (g - b) / d + (if g < b then 6 else 0)
                     else if mx = g then (b - r) / d + 2
                     else (r - g) / d + 4)
            in (h / 6, s, l)))"

definition ref_toHsl :: "jsval \<Rightarrow> hsl" where
  "ref_toHsl hexColor =
     (case ref_parse hexColor of
        (r, g, b, a) \<Rightarrow>
          (case ref_rgbToHsl (r / 255) (g / 255) (b / 255) of
             (h, s, l) \<Rightarrow> \<lparr>hsl_h = h * 360, hsl_s = s, hsl_l = l, hsl_a = a\<rparr>))"

definition ref_hue2rgb :: "real \<Rightarrow> real \<Rightarrow> real \<Rightarrow> real" where
  "ref_hue2rgb p q t0 =
     (let t1 = (if t0 < 0 then t0 + 1 else t0);
          t = (if t1 > 1 then t1 - 1 else t1)
      in if t < 1 / 6 then p + (q - p) * 6 * t
         else if t < 1 / 2 then q
         else if t < 2 / 3 then p + (q - p) * (2 / 3 - t) * 6
         else p)"

definition clamp01 :: "real \<Rightarrow> real" where
  "clamp01 v = min 1 (max 0 v)"

definition ref_hslToRgb :: "hsl \<Rightarrow> real \<times> real \<times> real" where
  "ref_hslToRgb c =
     (let h = min 360 (max 0 (hsl_h c)) / 360; s = clamp01 (hsl_s c); l = clamp01 (hsl_l c)
      in if s = 0 then (l * 255, l * 255, l * 255)
         else
           (let q = (if l < 1 / 2 then l * (1 + s) else l + s - l * s);
                p = 2 * l - q
            in (ref_hue2rgb p q (h + 1 / 3) * 255, ref_hue2rgb p q h * 255,
                ref_hue2rgb p q (h - 1 / 3) * 255)))"

definition ref_hslToHex :: "hsl \<Rightarrow> string" where
  "ref_hslToHex c =
     (case ref_hslToRgb c of (r, g, b) \<Rightarrow> toHex (Some r) @ toHex (Some g) @ toHex (Some b))"

definition ref_hslToHex8 :: "hsl \<Rightarrow> string" where
  "ref_hslToHex8 c = ref_hslToHex c @ toHex (Some (clamp01 (hsl_a c) * 255))"

definition ref_setAlphaToHex8 :: "jsval \<Rightarrow> real \<Rightarrow> string" where
  "ref_setAlphaToHex8 hexColor a =
     (case ref_parse hexColor of
        (r, g, b, _) \<Rightarrow> toHex (Some r) @ toHex (Some g) @ toHex (Some b) @ toHex (Some (clamp01 a * 255)))"

definition tinycolor_ref :: tinycolor where
  "tinycolor_ref =
     \<lparr>toHsl = ref_toHsl, hslToHex = ref_hslToHex, hslToHex8 = ref_hslToHex8,
      setAlphaToHex8 = ref_setAlphaToHex8\<rparr>"

subsection \<open>The modifier chain, as the specification words it\<close>

datatype modifier = HueMod | LumMod | LumOff | SatMod | Shade | Tint

fun modifier_key :: "modifier \<Rightarrow> string" where
  "modifier_key HueMod = ''a:hueMod''"
| "modifier_key LumMod = ''a:lumMod''"
| "modifier_key LumOff = ''a:lumOff''"
| "modifier_key SatMod = ''a:satMod''"
| "modifier_key Shade = ''a:shade''"
| "modifier_key Tint = ''a:tint''"

definition modifier_order :: "modifier list" where
  "modifier_order = [HueMod, LumMod, LumOff, SatMod, Shade, Tint]"

fun claimed_hsl :: "modifier \<Rightarrow> real \<Rightarrow> hsl \<Rightarrow> hsl" where
  \<comment> \<open>the operations in the words of the specification\<close>
  "claimed_hsl HueMod v c = c\<lparr>hsl_h := hsl_h c * v\<rparr>"
| "claimed_hsl LumMod v c = c\<lparr>hsl_l := hsl_l c * v\<rparr>"
| "claimed_hsl LumOff v c = c\<lparr>hsl_l := min (hsl_l c + v) 1\<rparr>"
| "claimed_hsl SatMod v c = c\<lparr>hsl_s := min (hsl_s c * v) 1\<rparr>"
| "claimed_hsl Shade v c = c\<lparr>hsl_l := hsl_l c * min v 1\<rparr>"
| "claimed_hsl Tint v c = c\<lparr>hsl_l := hsl_l c * min v 1 + (1 - min v 1)\<rparr>"

fun amended_hsl :: "modifier \<Rightarrow> real \<Rightarrow> hsl \<Rightarrow> hsl" where
  \<comment> \<open>the same with the hue brought back below 360 once and the products capped at 1\<close>
  "amended_hsl HueMod v c = c\<lparr>hsl_h := (if hsl_h c * v \<ge> 360 then hsl_h c * v - 360 else hsl_h c * v)\<rparr>"
| "amended_hsl LumMod v c = c\<lparr>hsl_l := min (hsl_l c * v) 1\<rparr>"
| "amended_hsl LumOff v c = c\<lparr>hsl_l := min (hsl_l c + v) 1\<rparr>"
| "amended_hsl SatMod v c = c\<lparr>hsl_s := min (hsl_s c * v) 1\<rparr>"
| "amended_hsl Shade v c = c\<lparr>hsl_l := min (hsl_l c * min v 1) 1\<rparr>"
| "amended_hsl Tint v c = c\<lparr>hsl_l := hsl_l c * min v 1 + (1 - min v 1)\<rparr>"

definition modifier_chain ::
  "(modifier \<Rightarrow> real \<Rightarrow> hsl \<Rightarrow> hsl) \<Rightarrow> tinycolor \<Rightarrow> bool \<Rightarrow> xml \<Rightarrow> jsval \<Rightarrow> jsval" where
  \<comment> \<open>each modifier that is present, in the fixed order, on the HSL form of the colour
      the step before it produced\<close>
  "modifier_chain ops tc hasAlpha clrNode color =
     foldl (\<lambda>c m. case modifierValue clrNode (modifier_key m) of
                     None \<Rightarrow> c
                   | Some v \<Rightarrow> JStr (hexOf tc hasAlpha (ops m v (toHsl tc c))))
           color modifier_order"

subsection \<open>Solid fills\<close>

record ColorResult =
  rc_color :: string
  rc_alpha :: "real option"

function resolveSolidFill ::
  "tinycolor \<Rightarrow> xml \<Rightarrow> ParsingContext \<Rightarrow> (string \<times> string) list option \<Rightarrow> string option
     \<Rightarrow> js_error + string" where
  "resolveSolidFill tc solidFill context clrMap phClr =
     (if \<not> truthy solidFill then Inr []
      else
        (let base = parseBaseColor solidFill context clrMap phClr;
             color = fst base;
             clrNode = snd base
         in if \<not> jsval_truthy color \<and> truthy (child solidFill ''a:fillRef'')
            then resolveSolidFill tc (child solidFill ''a:fillRef'') context clrMap phClr
            else
              (let resultColor = (if truthy clrNode \<and> jsval_truthy color
                                  then fst (applyColorModifiers tc color clrNode True)
                                  else color)
               in with_hash resultColor)))"
  by pat_completeness auto
termination
proof (relation "measure (\<lambda>(tc, solidFill, rest). size solidFill)", goal_cases)
  case 1
  show ?case by simp
next
  case (2 tc solidFill ctx clrMap phClr base color clrNode)
  have sz: "map_of kids k = Some c \<Longrightarrow> size c < Suc (size_list (size_prod (\<lambda>_. 0) size) kids)"
    for kids :: "(string \<times> xml) list" and k c
    by (induction kids) (auto split: if_splits)
  from 2 show ?case
    by (cases solidFill) (auto simp: truthy_def child_def sz split: option.splits)
qed

function resolveSolidFillWithAlpha ::
  "tinycolor \<Rightarrow> xml \<Rightarrow> ParsingContext \<Rightarrow> (string \<times> string) list option \<Rightarrow> string option
     \<Rightarrow> js_error + ColorResult" where
  "resolveSolidFillWithAlpha tc solidFill context clrMap phClr =
     (if \<not> truthy solidFill then Inr \<lparr>rc_color = [], rc_alpha = None\<rparr>
      else
        (let base = parseBaseColor solidFill context clrMap phClr;
             color = fst base;
             clrNode = snd base
         in if \<not> jsval_truthy color \<and> truthy (child solidFill ''a:fillRef'')
            then resolveSolidFillWithAlpha tc (child solidFill ''a:fillRef'') context clrMap phClr
            else
              (let result = (if truthy clrNode \<and> jsval_truthy color
                             then applyColorModifiers tc color clrNode False
                             else (color, None))
               in case with_hash (fst result) of
                    Inl err \<Rightarrow> Inl err
                  | Inr resultColor \<Rightarrow> Inr \<lparr>rc_color = resultColor, rc_alpha = snd result\<rparr>)))"
  by pat_completeness auto
termination
proof (relation "measure (\<lambda>(tc, solidFill, rest). size solidFill)", goal_cases)
  case 1
  show ?case by simp
next
  case (2 tc solidFill ctx clrMap phClr base color clrNode)
  have sz: "map_of kids k = Some c \<Longrightarrow> size c < Suc (size_list (size_prod (\<lambda>_. 0) size) kids)"
    for kids :: "(string \<times> xml) list" and k c
    by (induction kids) (auto split: if_splits)
  from 2 show ?case
    by (cases solidFill) (auto simp: truthy_def child_def sz split: option.splits)
qed

subsection \<open>Scheme colours and text colours, as the specification words them\<close>

definition spec_color_map_candidates :: "ParsingContext \<Rightarrow> (string \<times> string) list option list" where
  \<comment> \<open>the slide override, the layout override, the base colour map of the master\<close>
  "spec_color_map_candidates context =
     [attrs (getTextByPathList (slideContent context)
               [''p:sld'', ''p:clrMapOvr'', ''a:overrideClrMapping'']),
      attrs (getTextByPathList (slideLayoutContent context)
               [''p:sldLayout'', ''p:clrMapOvr'', ''a:overrideClrMapping'']),
      attrs (getTextByPathList (slideMasterContent context) [''p:sldMaster'', ''p:clrMap''])]"

definition spec_first_found :: "'a option list \<Rightarrow> 'a option" where
  "spec_first_found xs = (case filter (\<lambda>m. m \<noteq> None) xs of [] \<Rightarrow> None | m # _ \<Rightarrow> m)"

definition spec_physical_slot :: "(string \<times> string) list \<Rightarrow> string \<Rightarrow> string" where
  \<comment> \<open>the four logical names go through the colour map, every other name is kept\<close>
  "spec_physical_slot m name =
     (if name \<in> set [''tx1'', ''tx2'', ''bg1'', ''bg2''] then str_or (map_of m name) name else name)"

definition spec_slot_value :: "ParsingContext \<Rightarrow> string \<Rightarrow> string" where
  \<comment> \<open>the value of a slot of the colour scheme of the theme: \<^verbatim>\<open>srgbClr val\<close>, else
      \<^verbatim>\<open>sysClr lastClr\<close>, else empty\<close>
  "spec_slot_value context slot =
     (let node = child (child (child (child (themeContent context) ''a:theme'') ''a:themeElements'')
                   ''a:clrScheme'') (''a:'' @ slot)
      in str_or (attr (child node ''a:srgbClr'') ''val'')
           (str_or (attr (child node ''a:sysClr'') ''lastClr'') []))"

definition nesting_level :: "xml \<Rightarrow> int option" where
  \<comment> \<open>the nesting level of a paragraph: its \<^verbatim>\<open>lvl\<close> attribute, and 0 when none is written\<close>
  "nesting_level paragraph =
     (case attr (child paragraph ''a:pPr'') ''lvl'' of None \<Rightarrow> Some 0 | Some lvl \<Rightarrow> parseInt10 lvl)"

definition claimed_color_levels :: "xml \<Rightarrow> xml \<Rightarrow> xml \<Rightarrow> xml list" where
  \<comment> \<open>the four places a run colour can come from, nearest first, the third chosen by the
      nesting level of the paragraph when that is one of 0 to 8\<close>
  "claimed_color_levels run paragraph txBody =
     [child (child run ''a:rPr'') ''a:solidFill'',
      child (child (child paragraph ''a:pPr'') ''a:defRPr'') ''a:solidFill'',
      (case nesting_level paragraph of
         None \<Rightarrow> XUndef
       | Some n \<Rightarrow>
           if 0 \<le> n \<and> n \<le> 8
           then child (child (child (child paragraph ''a:pPr'')
                                (''a:lvl'' @ int_toString 10 (Some n) @ ''pPr''))
                         ''a:defRPr'') ''a:solidFill''
           else XUndef),
      child (child (child txBody ''a:lstStyle'') ''a:defRPr'') ''a:solidFill'']"

definition first_populated_color :: "tinycolor \<Rightarrow> ParsingContext \<Rightarrow> xml list \<Rightarrow> js_error + string option" where
  \<comment> \<open>the colour of the first populated fill of a chain, undefined when none is populated\<close>
  "first_populated_color tc context levels =
     (case find truthy levels of
        None \<Rightarrow> Inr None
      | Some solidFill \<Rightarrow> map_sum id Some (resolveSolidFill tc solidFill context None None))"

definition amended_color_levels :: "xml \<Rightarrow> xml \<Rightarrow> xml \<Rightarrow> xml list" where
  \<comment> \<open>the same with the third place chosen by the \<^verbatim>\<open>lvl\<close> attribute as it is written:
      there is none when the attribute is not written\<close>
  "amended_color_levels run paragraph txBody =
     [child (child run ''a:rPr'') ''a:solidFill'',
      child (child (child paragraph ''a:pPr'') ''a:defRPr'') ''a:solidFill'',
      (case attr (child paragraph ''a:pPr'') ''lvl'' of
         None \<Rightarrow> XUndef
       | Some lvl \<Rightarrow>
           child (child (child (child paragraph ''a:pPr'')
                           (''a:lvl'' @ int_toString 10 (parseInt10 lvl) @ ''pPr''))
                    ''a:defRPr'') ''a:solidFill''),
      child (child (child txBody ''a:lstStyle'') ''a:defRPr'') ''a:solidFill'']"

section \<open>Parsed elements\<close>

text \<open>
  Numbers read with \<^verbatim>\<open>parseInt\<close> are integers or NaN (\<open>None\<close>); a field that may be
  \<^verbatim>\<open>undefined\<close> has one more \<open>option\<close> around its value.
\<close>

record PPTXTransform =
  t_x :: "int option"
  t_y :: "int option"
  t_width :: "int option"
  t_height :: "int option"
  t_rotation :: "jsnum option"

record PPTXTextRun =
  run_text :: string
  run_bold :: bool
  run_italic :: bool
  run_underline :: bool
  run_strike :: bool
  run_fontSize :: "jsnum option"
  run_fontName :: "string option"
  run_color :: "string option"

datatype align = AlignLeft | AlignCenter | AlignRight | AlignJustify

record PPTXParagraph =
  par_runs :: "PPTXTextRun list"
  par_align :: "align option"
  par_bullet :: bool
  par_level :: "int option option"

datatype dash = Solid | Dashed

record Outline =
  ol_color :: "string option"
  ol_width :: "jsnum option"
  ol_style :: dash

record ShapeFields =
  sh_shapeType :: string
  sh_adj :: "int option option"
  sh_fill :: "string option"
  sh_fillOpacity :: "real option"
  sh_outline :: "Outline option"
  sh_path :: string

record LineFields =
  ln_startX :: "int option"
  ln_startY :: "int option"
  ln_endX :: "int option"
  ln_endY :: "int option"
  ln_color :: "string option"
  ln_width :: "jsnum option"

text \<open>
  An element carries its type tag, then \<^verbatim>\<open>id\<close>, \<^verbatim>\<open>transform\<close> and \<^verbatim>\<open>name\<close>, then the
  fields of its type. Tables come only from the table parser, which is outside these
  sources; its payload is kept as the frame it was given.
\<close>

datatype PPTXElement =
    TextElement string PPTXTransform "string option" "PPTXParagraph list"
  | ShapeElement string PPTXTransform "string option" ShapeFields
  | ImageElement string PPTXTransform "string option" string
  | VideoElement string PPTXTransform "string option" string
  | AudioElement string PPTXTransform "string option" string
  | LineElement string PPTXTransform "string option" LineFields
  | ChartElement string PPTXTransform "string option" string string
  | TableElement string PPTXTransform "string option" xml

fun element_id :: "PPTXElement \<Rightarrow> string" where
  "element_id (TextElement i _ _ _) = i"
| "element_id (ShapeElement i _ _ _) = i"
| "element_id (ImageElement i _ _ _) = i"
| "element_id (VideoElement i _ _ _) = i"
| "element_id (AudioElement i _ _ _) = i"
| "element_id (LineElement i _ _ _) = i"
| "element_id (ChartElement i _ _ _ _) = i"
| "element_id (TableElement i _ _ _) = i"

fun element_type :: "PPTXElement \<Rightarrow> string" where
  "element_type (TextElement _ _ _ _) = ''text''"
| "element_type (ShapeElement _ _ _ _) = ''shape''"
| "element_type (ImageElement _ _ _ _) = ''image''"
| "element_type (VideoElement _ _ _ _) = ''video''"
| "element_type (AudioElement _ _ _ _) = ''audio''"
| "element_type (LineElement _ _ _ _) = ''line''"
| "element_type (ChartElement _ _ _ _ _) = ''chart''"
| "element_type (TableElement _ _ _ _) = ''table''"

text \<open>
  What the element parsers use from outside these sources: the colour library, the
  shape path generator, the table and chart parsers, and the string the runtime prints
  for a number.
\<close>

record env =
  colorLib :: tinycolor
  generateShapePath :: "string \<Rightarrow> jsnum \<Rightarrow> jsnum \<Rightarrow> int option option \<Rightarrow> string"
  parseTable :: "xml \<Rightarrow> PPTXTransform \<Rightarrow> ParsingContext \<Rightarrow> PPTXElement option"
  parseChart :: "xml \<Rightarrow> string \<Rightarrow> PPTXTransform \<Rightarrow> ParsingContext \<Rightarrow> PPTXElement option"
  numberToString :: "real \<Rightarrow> string"

section \<open>Element parsers\<close>

definition RATIO_EMUs_Points :: real where
  "RATIO_EMUs_Points = 1 / 12700"

definition parseTransform :: "xml \<Rightarrow> PPTXTransform" where
  "parseTransform spPr =
     (let xfrm = child spPr ''a:xfrm'';
          off = attrs_or_empty (child xfrm ''a:off'');
          ext = attrs_or_empty (child xfrm ''a:ext'');
          rot = attr xfrm ''rot''
      in \<lparr>t_x = parseInt10 (str_or (map_of off ''x'') ''0''),
          t_y = parseInt10 (str_or (map_of off ''y'') ''0''),
          t_width = parseInt10 (str_or (map_of ext ''cx'') ''0''),
          t_height = parseInt10 (str_or (map_of ext ''cy'') ''0''),
          t_rotation = (if str_truthy rot
                        then Some (num_div (num_of_int (parseInt10 (the rot))) 60000)
                        else None)\<rparr>)"

fun join_comma :: "string list \<Rightarrow> string" where
  "join_comma [] = []"
| "join_comma [s] = s"
| "join_comma (s # t # rest) = s @ '','' @ join_comma (t # rest)"

fun js_String :: "(real \<Rightarrow> string) \<Rightarrow> xml \<Rightarrow> string" where
  \<comment> \<open>\<^verbatim>\<open>String(v)\<close>\<close>
  "js_String numStr (XStr s) = s"
| "js_String numStr XUndef = ''undefined''"
| "js_String numStr (XNum n) = numStr n"
| "js_String numStr (XBool b) = (if b then ''true'' else ''false'')"
| "js_String numStr (XObj a kids) = ''[object Object]''"
| "js_String numStr (XArr xs) =
     join_comma (map (\<lambda>v. if v = XUndef then [] else js_String numStr v) xs)"

fun try_map :: "('a \<Rightarrow> js_error + 'b) \<Rightarrow> 'a list \<Rightarrow> js_error + 'b list" where
  \<comment> \<open>a loop that collects one result per item: the first exception ends it\<close>
  "try_map f [] = Inr []"
| "try_map f (x # xs) =
     (case f x of
        Inl err \<Rightarrow> Inl err
      | Inr y \<Rightarrow> (case try_map f xs of Inl err \<Rightarrow> Inl err | Inr ys \<Rightarrow> Inr (y # ys)))"

definition resolveTextColor ::
  "tinycolor \<Rightarrow> xml \<Rightarrow> xml \<Rightarrow> xml \<Rightarrow> ParsingContext \<Rightarrow> js_error + string option" where
  "resolveTextColor tc run paragraph txBody context =
     (let runSolidFill = child (child run ''a:rPr'') ''a:solidFill''
      in if truthy runSolidFill
         then map_sum id Some (resolveSolidFill tc runSolidFill context None None)
         else
           (let pPr = child paragraph ''a:pPr'';
                defRPrSolidFill = child (child pPr ''a:defRPr'') ''a:solidFill''
            in if truthy defRPrSolidFill
               then map_sum id Some (resolveSolidFill tc defRPrSolidFill context None None)
               else
                 (let lvlDefRPrSolidFill =
                        (if truthy pPr then
                           (case attr pPr ''lvl'' of
                              None \<Rightarrow> XUndef
                            | Some levelAttr \<Rightarrow>
                                (let level = parseInt10 levelAttr;
                                     lvlPPr = child pPr (''a:lvl'' @ int_toString 10 level @ ''pPr'')
                                 in child (child lvlPPr ''a:defRPr'') ''a:solidFill''))
                         else XUndef)
                  in if truthy lvlDefRPrSolidFill
                     then map_sum id Some (resolveSolidFill tc lvlDefRPrSolidFill context None None)
                     else
                       (let lstStyleDefRPrSolidFill =
                              child (child (child txBody ''a:lstStyle'') ''a:defRPr'') ''a:solidFill''
                        in if truthy lstStyleDefRPrSolidFill
                           then map_sum id Some
                                  (resolveSolidFill tc lstStyleDefRPrSolidFill context None None)
                           else Inr None))))"

definition runColor_single_file :: "tinycolor \<Rightarrow> xml \<Rightarrow> ParsingContext \<Rightarrow> js_error + string option" where
  \<comment> \<open>the colour lines of the run loop of the single-file parser: the fill of the run
      properties and nothing else\<close>
  "runColor_single_file tc run context =
     (let solidFill = child (child run ''a:rPr'') ''a:solidFill''
      in if truthy solidFill
         then map_sum id Some (resolveSolidFill tc solidFill context None None)
         else Inr None)"

text \<open>
  The text-body parser exists twice, in the modular shape parser and in the single-file
  parser. The two texts differ in the colour of a run only: the first calls
  \<open>resolveTextColor\<close>, the second has the lines of \<open>runColor_single_file\<close>. The run
  object and the paragraph object they build are therefore written once.
\<close>

definition runFields :: "(real \<Rightarrow> string) \<Rightarrow> xml \<Rightarrow> string option \<Rightarrow> PPTXTextRun" where
  \<comment> \<open>the object pushed for a run, given its colour\<close>
  "runFields numStr run color =
     (let rPr = attrs_or_empty (child run ''a:rPr'');
          text = (if truthy (child run ''a:t'') then child run ''a:t'' else XStr [])
      in \<lparr>run_text = js_String numStr text,
          run_bold = (map_of rPr ''b'' = Some ''1''),
          run_italic = (map_of rPr ''i'' = Some ''1''),
          run_underline = (map_of rPr ''u'' = Some ''sng'' \<or> map_of rPr ''u'' = Some ''1''),
          run_strike = (map_of rPr ''strike'' = Some ''sngStrike''),
          run_fontSize = (if str_truthy (map_of rPr ''sz'')
                          then Some (num_div (num_of_int (parseInt10 (the (map_of rPr ''sz'')))) 100)
                          else None),
          run_fontName = map_of rPr ''latin'',
          run_color = color\<rparr>)"

definition paragraphFields :: "xml \<Rightarrow> PPTXTextRun list \<Rightarrow> PPTXParagraph" where
  \<comment> \<open>the object returned for a paragraph, given its runs\<close>
  "paragraphFields p runs =
     (let pPr = attrs (child p ''a:pPr'');
          algn = (case pPr of None \<Rightarrow> None | Some a \<Rightarrow> map_of a ''algn'');
          align = (if algn = Some ''l'' then Some AlignLeft
                   else if algn = Some ''r'' then Some AlignRight
                   else if algn = Some ''ctr'' then Some AlignCenter
                   else if algn = Some ''just'' \<or> algn = Some ''dist'' then Some AlignJustify
                   else None);
          bullet = (truthy (child (child p ''a:pPr'') ''a:buFont'')
                    \<or> truthy (child (child p ''a:pPr'') ''a:buChar'')
                    \<or> truthy (child (child p ''a:pPr'') ''a:buAutoNum''));
          lvl = (case pPr of None \<Rightarrow> None | Some a \<Rightarrow> map_of a ''lvl'');
          level = (if str_truthy lvl then Some (parseInt10 (the lvl)) else None)
      in \<lparr>par_runs = runs, par_align = align, par_bullet = bullet, par_level = level\<rparr>)"

definition runArray :: "xml \<Rightarrow> xml list" where
  "runArray p = as_array (if truthy (child p ''a:r'') then child p ''a:r'' else XArr [])"

definition paragraphArray :: "xml \<Rightarrow> xml list" where
  "paragraphArray txBody = as_array (if truthy (child txBody ''a:p'') then child txBody ''a:p'' else XArr [])"

definition parseRun :: "env \<Rightarrow> xml \<Rightarrow> xml \<Rightarrow> xml \<Rightarrow> ParsingContext \<Rightarrow> js_error + PPTXTextRun" where
  \<comment> \<open>the body of the loop over \<^verbatim>\<open>runArray\<close>, modular shape parser\<close>
  "parseRun e run p txBody context =
     map_sum id (runFields (numberToString e) run) (resolveTextColor (colorLib e) run p txBody context)"

definition parseParagraph :: "env \<Rightarrow> xml \<Rightarrow> xml \<Rightarrow> ParsingContext \<Rightarrow> js_error + PPTXParagraph" where
  \<comment> \<open>the function mapped over \<^verbatim>\<open>paragraphs\<close>, modular shape parser\<close>
  "parseParagraph e p txBody context =
     map_sum id (paragraphFields p) (try_map (\<lambda>r. parseRun e r p txBody context) (runArray p))"

definition parseTextBodyToParagraphs :: "env \<Rightarrow> xml \<Rightarrow> ParsingContext \<Rightarrow> js_error + PPTXParagraph list" where
  "parseTextBodyToParagraphs e txBody context =
     (if \<not> truthy txBody then Inr []
      else try_map (\<lambda>p. parseParagraph e p txBody context) (paragraphArray txBody))"

definition parseRun_single_file :: "env \<Rightarrow> xml \<Rightarrow> ParsingContext \<Rightarrow> js_error + PPTXTextRun" where
  \<comment> \<open>the body of the loop over \<^verbatim>\<open>runArray\<close>, single-file parser\<close>
  "parseRun_single_file e run context =
     map_sum id (runFields (numberToString e) run) (runColor_single_file (colorLib e) run context)"

definition parseParagraph_single_file :: "env \<Rightarrow> xml \<Rightarrow> ParsingContext \<Rightarrow> js_error + PPTXParagraph" where
  \<comment> \<open>the function mapped over \<^verbatim>\<open>paragraphs\<close>, single-file parser\<close>
  "parseParagraph_single_file e p context =
     map_sum id (paragraphFields p) (try_map (\<lambda>r. parseRun_single_file e r context) (runArray p))"

definition parseTextBodyToParagraphs_single_file ::
  "env \<Rightarrow> xml \<Rightarrow> ParsingContext \<Rightarrow> js_error + PPTXParagraph list" where
  "parseTextBodyToParagraphs_single_file e txBody context =
     (if \<not> truthy txBody then Inr []
      else try_map (\<lambda>p. parseParagraph_single_file e p context) (paragraphArray txBody))"

definition hasText :: "PPTXTextRun \<Rightarrow> bool" where
  \<comment> \<open>\<^verbatim>\<open>run.text && run.text.trim().length > 0\<close>\<close>
  "hasText run = (run_text run \<noteq> [] \<and> length (js_trim (run_text run)) > 0)"

fun find_adj :: "xml list \<Rightarrow> int option option" where
  \<comment> \<open>the loop over \<^verbatim>\<open>gdArray\<close>: it stops at the first guide named \<^verbatim>\<open>adj\<close>\<close>
  "find_adj [] = None"
| "find_adj (gd # rest) =
     (if attr gd ''name'' = Some ''adj''
      then (case attr gd ''fmla'' of
              None \<Rightarrow> None
            | Some fmla \<Rightarrow> if startsWith fmla ''val '' then Some (parseInt10 (drop 4 fmla)) else None)
      else find_adj rest)"

definition parseOutline :: "tinycolor \<Rightarrow> xml \<Rightarrow> ParsingContext \<Rightarrow> js_error + Outline option" where
  "parseOutline tc lnNode context =
     (if truthy lnNode then
        (let lnAttrs = attrs_or_empty lnNode;
             lnSolidFill = child lnNode ''a:solidFill'';
             dashVal = attr (child lnNode ''a:prstDash'') ''val''
         in case (if truthy lnSolidFill
                  then map_sum id Some (resolveSolidFill tc lnSolidFill context None None)
                  else Inr None) of
              Inl err \<Rightarrow> Inl err
            | Inr color \<Rightarrow>
                Inr (Some \<lparr>ol_color = color,
                           ol_width = (if str_truthy (map_of lnAttrs ''w'')
                                       then Some (num_mul (num_of_int (parseInt10 (the (map_of lnAttrs ''w''))))
                                                          (Some RATIO_EMUs_Points))
                                       else None),
                           ol_style = (if dashVal = Some ''solid'' then Solid
                                       else if str_truthy dashVal then Dashed else Solid)\<rparr>))
      else Inr None)"

text \<open>
  \<^verbatim>\<open>parseShape\<close> exists twice as well, with the same text; each copy calls the
  text-body parser of its own file. \<open>parseShapeWith\<close> is that text, with the text-body
  parser it calls as its first argument.
\<close>

definition parseShapeWith ::
  "(xml \<Rightarrow> ParsingContext \<Rightarrow> js_error + PPTXParagraph list) \<Rightarrow> env \<Rightarrow> string \<Rightarrow> xml \<Rightarrow> ParsingContext
     \<Rightarrow> js_error + PPTXElement option" where
  "parseShapeWith textBody e uuid shape context =
     (if shape = XUndef then Inl TypeError
      else
        (let nvSpPr = child shape ''p:nvSpPr'';
             spPr = child shape ''p:spPr'';
             txBody = child shape ''p:txBody'';
             transform = parseTransform spPr;
             cNvPr = attrs_or_empty (child nvSpPr ''p:cNvPr'');
             ident = str_or (map_of cNvPr ''id'') uuid;
             name = map_of cNvPr ''name''
         in case (if truthy txBody then textBody txBody context else Inr []) of
              Inl err \<Rightarrow> Inl err
            | Inr paragraphs \<Rightarrow>
                (let hasActualText = (truthy txBody \<and> list_ex (\<lambda>p. list_ex hasText (par_runs p)) paragraphs)
                 in if hasActualText then Inr (Some (TextElement ident transform name paragraphs))
                    else
                      (let prstGeom = attr (child spPr ''a:prstGeom'') ''prst'';
                           shapeType = str_or prstGeom ''rect'';
                           avLst = child (child spPr ''a:prstGeom'') ''a:avLst'';
                           gdList = child avLst ''a:gd'';
                           gdArray = (case gdList of XArr xs \<Rightarrow> xs | _ \<Rightarrow> if truthy gdList then [gdList] else []);
                           adj = find_adj gdArray;
                           solidFill = child spPr ''a:solidFill''
                       in case (if truthy solidFill
                                then map_sum id Some
                                       (resolveSolidFillWithAlpha (colorLib e) solidFill context None None)
                                else Inr None) of
                            Inl err \<Rightarrow> Inl err
                          | Inr fillResult \<Rightarrow>
                              (case parseOutline (colorLib e) (child spPr ''a:ln'') context of
                                 Inl err \<Rightarrow> Inl err
                               | Inr outline \<Rightarrow>
                                   Inr (Some (ShapeElement ident transform name
                                     \<lparr>sh_shapeType = shapeType, sh_adj = adj,
                                      sh_fill = map_option rc_color fillResult,
                                      sh_fillOpacity = (case fillResult of None \<Rightarrow> None | Some r \<Rightarrow> rc_alpha r),
                                      sh_outline = outline,
                                      sh_path = generateShapePath e shapeType
                                        (num_mul (num_of_int (t_width transform)) (Some RATIO_EMUs_Points))
                                        (num_mul (num_of_int (t_height transform)) (Some RATIO_EMUs_Points))
                                        adj\<rparr>)))))))"

definition parseShape :: "env \<Rightarrow> string \<Rightarrow> xml \<Rightarrow> ParsingContext \<Rightarrow> js_error + PPTXElement option" where
  \<comment> \<open>modular shape parser\<close>
  "parseShape e uuid shape context = parseShapeWith (parseTextBodyToParagraphs e) e uuid shape context"

definition parseShape_single_file ::
  "env \<Rightarrow> string \<Rightarrow> xml \<Rightarrow> ParsingContext \<Rightarrow> js_error + PPTXElement option" where
  \<comment> \<open>single-file parser\<close>
  "parseShape_single_file e uuid shape context =
     parseShapeWith (parseTextBodyToParagraphs_single_file e) e uuid shape context"

definition parsePicture :: "string \<Rightarrow> xml \<Rightarrow> js_error + PPTXElement option" where
  "parsePicture uuid pic =
     (if pic = XUndef then Inl TypeError
      else
        (let nvPicPr = child pic ''p:nvPicPr'';
             spPr = child pic ''p:spPr'';
             blipFill = child pic ''p:blipFill'';
             transform = parseTransform spPr;
             cNvPr = attrs_or_empty (child nvPicPr ''p:cNvPr'');
             ident = str_or (map_of cNvPr ''id'') uuid;
             name = map_of cNvPr ''name'';
             rId = attr (child blipFill ''a:blip'') ''r:embed''
         in if \<not> str_truthy rId then Inr None
            else
              (let nvPr = child nvPicPr ''p:nvPr'';
                   videoFile = attr (child nvPr ''a:videoFile'') ''r:link'';
                   audioFile = attr (child nvPr ''a:audioFile'') ''r:link''
               in if str_truthy videoFile then Inr (Some (VideoElement ident transform name (the videoFile)))
                  else if str_truthy audioFile then Inr (Some (AudioElement ident transform name (the audioFile)))
                  else Inr (Some (ImageElement ident transform name (the rId))))))"

definition int_add :: "int option \<Rightarrow> int option \<Rightarrow> int option" where
  "int_add a b = (case (a, b) of (Some u, Some v) \<Rightarrow> Some (u + v) | _ \<Rightarrow> None)"

definition parseConnector :: "env \<Rightarrow> string \<Rightarrow> xml \<Rightarrow> ParsingContext \<Rightarrow> js_error + PPTXElement option" where
  "parseConnector e uuid conn context =
     (if conn = XUndef then Inl TypeError
      else
        (let nvCxnSpPr = child conn ''p:nvCxnSpPr'';
             spPr = child conn ''p:spPr'';
             transform = parseTransform spPr;
             cNvPr = attrs_or_empty (child nvCxnSpPr ''p:cNvPr'');
             ident = str_or (map_of cNvPr ''id'') uuid;
             name = map_of cNvPr ''name'';
             lnNode = child spPr ''a:ln'';
             solidFill = child lnNode ''a:solidFill''
         in case (if truthy solidFill
                  then map_sum id Some (resolveSolidFill (colorLib e) solidFill context None None)
                  else Inr None) of
              Inl err \<Rightarrow> Inl err
            | Inr color \<Rightarrow>
                (let width = (if str_truthy (attr lnNode ''w'')
                              then Some (num_mul (num_of_int (parseInt10 (the (attr lnNode ''w''))))
                                                 (Some RATIO_EMUs_Points))
                              else None)
                 in Inr (Some (LineElement ident transform name
                      \<lparr>ln_startX = t_x transform, ln_startY = t_y transform,
                       ln_endX = int_add (t_x transform) (t_width transform),
                       ln_endY = int_add (t_y transform) (t_height transform),
                       ln_color = color, ln_width = width\<rparr>)))))"

definition parseGraphicFrame :: "env \<Rightarrow> string \<Rightarrow> xml \<Rightarrow> ParsingContext \<Rightarrow> js_error + PPTXElement option" where
  "parseGraphicFrame e uuid frame context =
     (if frame = XUndef then Inl TypeError
      else
        (let nvGraphicFramePr = child frame ''p:nvGraphicFramePr'';
             xfrm = child frame ''p:xfrm'';
             graphic = child frame ''a:graphic'';
             off = attrs_or_empty (child xfrm ''a:off'');
             ext = attrs_or_empty (child xfrm ''a:ext'');
             transform = \<lparr>t_x = parseInt10 (str_or (map_of off ''x'') ''0''),
                          t_y = parseInt10 (str_or (map_of off ''y'') ''0''),
                          t_width = parseInt10 (str_or (map_of ext ''cx'') ''0''),
                          t_height = parseInt10 (str_or (map_of ext ''cy'') ''0''),
                          t_rotation = None\<rparr>;
             cNvPr = attrs_or_empty (child nvGraphicFramePr ''p:cNvPr'');
             ident = str_or (map_of cNvPr ''id'') uuid;
             name = map_of cNvPr ''name'';
             graphicData = child graphic ''a:graphicData'';
             uri = attr graphicData ''uri''
         in if (case uri of None \<Rightarrow> False | Some u \<Rightarrow> includes_str u ''chart'') then
              (let chartRId = attr (child graphicData ''c:chart'') ''r:id''
               in if str_truthy chartRId then Inr (parseChart e frame (the chartRId) transform context)
                  else Inr (Some (ChartElement ident transform name ''column'' [])))
            else if (case uri of None \<Rightarrow> False | Some u \<Rightarrow> includes_str u ''table'')
            then Inr (parseTable e frame transform context)
            else Inr None))"

section \<open>Slides\<close>

record PPTXSlide =
  slide_id :: string
  slide_elements :: "PPTXElement list"

definition Object_keys :: "xml \<Rightarrow> string list" where
  \<comment> \<open>the child keys of an object in insertion order; the attribute group and the index
      keys of a string or an array never start with \<^verbatim>\<open>p:\<close> and are left out\<close>
  "Object_keys v = (case v of XObj _ kids \<Rightarrow> map fst kids | _ \<Rightarrow> [])"

definition parseItem :: "env \<Rightarrow> ParsingContext \<Rightarrow> string \<Rightarrow> string \<Rightarrow> xml \<Rightarrow> js_error + PPTXElement option" where
  \<comment> \<open>the \<^verbatim>\<open>switch (key)\<close> of the slide loop\<close>
  "parseItem e context uuid key item =
     (if key = ''p:sp'' then parseShape e uuid item context
      else if key = ''p:pic'' then parsePicture uuid item
      else if key = ''p:graphicFrame'' then parseGraphicFrame e uuid item context
      else if key = ''p:cxnSp'' then parseConnector e uuid item context
      else Inr None)"

text \<open>
  The two loops of \<^verbatim>\<open>parseSingleSlide\<close>. The state is the element list built so far and
  the number of items visited; \<open>uuids n\<close> is the identifier the generator would return
  while the \<open>n\<close>-th item is parsed.
\<close>

fun parseItems ::
  "env \<Rightarrow> ParsingContext \<Rightarrow> (nat \<Rightarrow> string) \<Rightarrow> string \<Rightarrow> xml list \<Rightarrow> PPTXElement list \<times> nat
     \<Rightarrow> js_error + PPTXElement list \<times> nat" where
  "parseItems e context uuids key [] st = Inr st"
| "parseItems e context uuids key (item # items) (elements, n) =
     (case parseItem e context (uuids n) key item of
        Inl err \<Rightarrow> Inl err
      | Inr None \<Rightarrow> parseItems e context uuids key items (elements, Suc n)
      | Inr (Some element) \<Rightarrow> parseItems e context uuids key items (elements @ [element], Suc n))"

fun parseKeys ::
  "env \<Rightarrow> ParsingContext \<Rightarrow> (nat \<Rightarrow> string) \<Rightarrow> xml \<Rightarrow> string list \<Rightarrow> PPTXElement list \<times> nat
     \<Rightarrow> js_error + PPTXElement list \<times> nat" where
  "parseKeys e context uuids spTree [] st = Inr st"
| "parseKeys e context uuids spTree (key # keys) st =
     (if \<not> startsWith key ''p:'' then parseKeys e context uuids spTree keys st
      else if key = ''p:nvGrpSpPr'' \<or> key = ''p:grpSpPr'' then parseKeys e context uuids spTree keys st
      else
        (case parseItems e context uuids key (as_array (child spTree key)) st of
           Inl err \<Rightarrow> Inl err
         | Inr st' \<Rightarrow> parseKeys e context uuids spTree keys st'))"

definition slide_name :: "nat \<Rightarrow> string" where
  "slide_name slideIndex = ''slide-'' @ int_toString 10 (Some (int slideIndex))"

definition parseSingleSlide :: "env \<Rightarrow> (nat \<Rightarrow> string) \<Rightarrow> nat \<Rightarrow> ParsingContext \<Rightarrow> js_error + PPTXSlide" where
  \<comment> \<open>from the built slide context on; the background and the notes are not modelled\<close>
  "parseSingleSlide e uuids slideIndex context =
     (let spTree = child (child (child (slideContent context) ''p:sld'') ''p:cSld'') ''p:spTree''
      in if \<not> truthy spTree then Inr \<lparr>slide_id = slide_name slideIndex, slide_elements = []\<rparr>
         else
           (case parseKeys e context uuids spTree (Object_keys spTree) ([], 0) of
              Inl err \<Rightarrow> Inl err
            | Inr (elements, n) \<Rightarrow> Inr \<lparr>slide_id = slide_name slideIndex, slide_elements = elements\<rparr>))"

subsection \<open>The XML normaliser on the children of one element\<close>

text \<open>
  Modelled from the spec: the XML normaliser is a library outside these sources. It keys
  the children of an element by tag name in order of first occurrence and groups
  same-tag siblings into a list, so the interleaving of different tags is lost.
\<close>

fun add_child :: "string \<Rightarrow> xml \<Rightarrow> (string \<times> xml) list \<Rightarrow> (string \<times> xml) list" where
  "add_child tag node [] = [(tag, node)]"
| "add_child tag node ((k, v) # rest) =
     (if k = tag
      then (k, (case v of XArr xs \<Rightarrow> XArr (xs @ [node]) | _ \<Rightarrow> XArr [v, node])) # rest
      else (k, v) # add_child tag node rest)"

definition normalize_children :: "(string \<times> xml) list \<Rightarrow> xml" where
  "normalize_children cs = XObj None (foldl (\<lambda>acc (tag, node). add_child tag node acc) [] cs)"

section \<open>The presentation\<close>

text \<open>A \<^verbatim>\<open>Map\<close> is an association list in insertion order with distinct keys.\<close>

fun Map_set :: "'k \<Rightarrow> 'v \<Rightarrow> ('k \<times> 'v) list \<Rightarrow> ('k \<times> 'v) list" where
  "Map_set k v [] = [(k, v)]"
| "Map_set k v ((k', v') # rest) = (if k' = k then (k, v) # rest else (k', v') # Map_set k v rest)"

definition Map_get :: "('k \<times> 'v) list \<Rightarrow> 'k \<Rightarrow> 'v option" where
  "Map_get m k = map_of m k"

text \<open>
  The parser stores whatever \<open>getMimeType\<close> returns as the content type of a media file;
  the converter declares the content types it is given as strings. The type of the
  content type is therefore a parameter of the two records.
\<close>

record 'c MediaData =
  md_data :: string
  md_contentType :: 'c

record 'c PPTXPresentation =
  pres_slides :: "PPTXSlide list"
  pres_slideSize :: "jsnum \<times> jsnum"
  pres_media :: "(string \<times> 'c MediaData) list"
  pres_slideMediaMaps :: "(string \<times> 'c MediaData) list list"

type_synonym archive = "(string \<times> string) list"

text \<open>
  The archive is the list of the files of the loaded zip container (name and content).
  A buffer that is no zip container is rejected by the zip library before any check.
\<close>

definition zip_file :: "archive \<Rightarrow> string \<Rightarrow> string option" where
  "zip_file contents name = map_of contents name"

definition Errors_protectedFile :: js_error where
  "Errors_protectedFile = ConversionError ''ERR_PROTECTED_FILE''"

definition Errors_corruptedFile :: js_error where
  "Errors_corruptedFile = ConversionError ''ERR_CORRUPTED_FILE''"

fun find_sub :: "string \<Rightarrow> string \<Rightarrow> nat option" where
  \<comment> \<open>the index of the first occurrence of a substring\<close>
  "find_sub [] p = (if p = [] then Some 0 else None)"
| "find_sub (c # cs) p =
     (if startsWith (c # cs) p then Some 0 else map_option Suc (find_sub cs p))"

definition replace_first :: "string \<Rightarrow> string \<Rightarrow> string \<Rightarrow> string" where
  \<comment> \<open>\<^verbatim>\<open>s.replace(p, r)\<close> for a string pattern\<close>
  "replace_first s p r =
     (case find_sub s p of None \<Rightarrow> s | Some i \<Rightarrow> take i s @ r @ drop (i + length p) s)"

definition last_segment :: "string \<Rightarrow> string" where
  \<comment> \<open>\<^verbatim>\<open>path.split('.').pop()\<close>\<close>
  "last_segment path = rev (takeWhile (\<lambda>c. c \<noteq> CHR ''.'') (rev path))"

definition mimeTypes :: "(string \<times> string) list" where
  "mimeTypes =
     [(''png'', ''image/png''), (''jpg'', ''image/jpeg''), (''jpeg'', ''image/jpeg''),
      (''gif'', ''image/gif''), (''bmp'', ''image/bmp''), (''mp4'', ''video/mp4''),
      (''avi'', ''video/x-msvideo''), (''mov'', ''video/quicktime''),
      (''mp3'', ''audio/mpeg''), (''wav'', ''audio/wav'')]"

definition getMimeType :: "string \<Rightarrow> jsval" where
  "getMimeType path =
     (let ext = toLowerCase (last_segment path)
      in jsval_or (table_get mimeTypes ext) ''application/octet-stream'')"

fun collectMedia :: "archive \<Rightarrow> (string \<times> jsval MediaData) list \<Rightarrow> (string \<times> jsval MediaData) list" where
  "collectMedia [] media = media"
| "collectMedia ((filePath, content) # files) media =
     (if startsWith filePath ''ppt/media/''
      then collectMedia files
             (Map_set (replace_first filePath ''ppt/media/'' [])
                      \<lparr>md_data = content, md_contentType = getMimeType filePath\<rparr> media)
      else collectMedia files media)"

fun collectRels :: "xml list \<Rightarrow> (string \<times> string) list \<Rightarrow> (string \<times> string) list" where
  \<comment> \<open>the loop of \<^verbatim>\<open>parseSlideRels\<close>; this parser keeps attributes as plain keys of the node\<close>
  "collectRels [] rIdToTarget = rIdToTarget"
| "collectRels (rel # rels) rIdToTarget =
     (let ident = attr rel ''Id''; target = attr rel ''Target''
      in if str_truthy ident \<and> str_truthy target \<and> includes_str (the target) ''media/''
         then collectRels rels
                (Map_set (the ident)
                   (if startsWith (the target) ''../'' then drop 3 (the target) else the target)
                   rIdToTarget)
         else collectRels rels rIdToTarget)"

definition parseSlideRels :: "(string \<Rightarrow> xml) \<Rightarrow> archive \<Rightarrow> nat \<Rightarrow> (string \<times> string) list" where
  "parseSlideRels parseXml contents slideNum =
     (let relsPath = ''ppt/slides/_rels/slide'' @ int_toString 10 (Some (int slideNum)) @ ''.xml.rels'';
          relsXml = zip_file contents relsPath
      in if str_truthy relsXml then
           (let rels = parseXml (the relsXml);
                relationships = child (child rels ''Relationships'') ''Relationship'';
                relArray = as_array (if truthy relationships then relationships else XArr [])
            in collectRels relArray [])
         else [])"

fun collectSlideMedia ::
  "(string \<times> string) list \<Rightarrow> (string \<times> 'c MediaData) list \<Rightarrow> (string \<times> 'c MediaData) list
     \<Rightarrow> (string \<times> 'c MediaData) list" where
  "collectSlideMedia [] media slideRIdToMedia = slideRIdToMedia"
| "collectSlideMedia ((rId, target) # rest) media slideRIdToMedia =
     (case Map_get media (replace_first target ''media/'' []) of
        None \<Rightarrow> collectSlideMedia rest media slideRIdToMedia
      | Some mediaData \<Rightarrow> collectSlideMedia rest media (Map_set rId mediaData slideRIdToMedia))"

text \<open>
  What \<^verbatim>\<open>parsePPTX\<close> takes from the rest of the parser: the XML normaliser, the slide
  size, the list of slide files, the slide context built for a slide file (it holds
  the theme), and the identifiers drawn while a slide is parsed.
\<close>

record parse_env =
  elementEnv :: env
  parseXml :: "string \<Rightarrow> xml"
  getSlideInfo :: "archive \<Rightarrow> jsnum \<times> jsnum"
  getContentTypes :: "archive \<Rightarrow> string list"
  buildSlideContext :: "archive \<Rightarrow> string \<Rightarrow> ParsingContext"
  uuidsOf :: "nat \<Rightarrow> nat \<Rightarrow> string"

fun parseSlides ::
  "parse_env \<Rightarrow> archive \<Rightarrow> (string \<times> 'c MediaData) list \<Rightarrow> string list \<Rightarrow> nat
     \<Rightarrow> PPTXSlide list \<times> (string \<times> 'c MediaData) list list
     \<Rightarrow> js_error + PPTXSlide list \<times> (string \<times> 'c MediaData) list list" where
  \<comment> \<open>the loop over \<^verbatim>\<open>slideFiles\<close>, from index \<open>i\<close> on\<close>
  "parseSlides pe contents mediaMap [] i st = Inr st"
| "parseSlides pe contents mediaMap (slideFilename # rest) i (slidesAcc, mapsAcc) =
     (let slideNum = i + 1
      in case parseSingleSlide (elementEnv pe) (uuidsOf pe slideNum) slideNum
                (buildSlideContext pe contents slideFilename) of
           Inl err \<Rightarrow> Inl err
         | Inr slide \<Rightarrow>
             (let rIdToTarget = parseSlideRels (parseXml pe) contents slideNum;
                  slideRIdToMedia = collectSlideMedia rIdToTarget mediaMap []
              in parseSlides pe contents mediaMap rest (i + 1)
                   (slidesAcc @ [slide], mapsAcc @ [slideRIdToMedia])))"

definition parsePPTX :: "parse_env \<Rightarrow> archive \<Rightarrow> js_error + jsval PPTXPresentation" where
  "parsePPTX pe contents =
     (if zip_file contents ''EncryptedPackage'' \<noteq> None then Inl Errors_protectedFile
      else if \<not> str_truthy (zip_file contents ''ppt/presentation.xml'') then Inl Errors_corruptedFile
      else
        (let size = getSlideInfo pe contents;
             slideFiles = getContentTypes pe contents;
             mediaMap = collectMedia contents []
         in case parseSlides pe contents mediaMap slideFiles 0 ([], []) of
              Inl err \<Rightarrow> Inl err
            | Inr (slidesAcc, mapsAcc) \<Rightarrow>
                Inr \<lparr>pres_slides = slidesAcc, pres_slideSize = size, pres_media = mediaMap,
                     pres_slideMediaMaps = mapsAcc\<rparr>))"

section \<open>Converter: the media map\<close>

datatype media_type = Image | Video | Audio

record MediaInfo =
  mi_type :: media_type
  mi_data :: string
  mi_mimeType :: string

record ConversionContext =
  ctx_mediaMap :: "(string \<times> MediaInfo) list"
  ctx_currentSlideIndex :: nat

definition mediaKey :: "nat \<Rightarrow> string \<Rightarrow> string" where
  \<comment> \<open>the template \<^verbatim>\<open>${slideIndex}_${rId}\<close>\<close>
  "mediaKey slideIndex rId = int_toString 10 (Some (int slideIndex)) @ ''_'' @ rId"

definition toMediaInfo :: "(string \<Rightarrow> string) \<Rightarrow> string MediaData \<Rightarrow> MediaInfo" where
  \<comment> \<open>\<open>base64\<close> is the encoding of the buffer by the runtime\<close>
  "toMediaInfo base64 mediaInfo =
     \<lparr>mi_type = (if startsWith (md_contentType mediaInfo) ''image'' then Image
                 else if startsWith (md_contentType mediaInfo) ''video'' then Video
                 else Audio),
      mi_data = base64 (md_data mediaInfo),
      mi_mimeType = md_contentType mediaInfo\<rparr>"

fun processSlideMedia ::
  "(string \<Rightarrow> string) \<Rightarrow> nat \<Rightarrow> (string \<times> string MediaData) list \<Rightarrow> ConversionContext \<Rightarrow> ConversionContext" where
  "processSlideMedia base64 slideIndex [] context = context"
| "processSlideMedia base64 slideIndex ((rId, mediaInfo) # rest) context =
     processSlideMedia base64 slideIndex rest
       (context\<lparr>ctx_mediaMap := Map_set (mediaKey slideIndex rId) (toMediaInfo base64 mediaInfo)
                                    (ctx_mediaMap context)\<rparr>)"

fun processMediaFrom ::
  "(string \<Rightarrow> string) \<Rightarrow> nat \<Rightarrow> (string \<times> string MediaData) list list \<Rightarrow> ConversionContext \<Rightarrow> ConversionContext" where
  \<comment> \<open>\<^verbatim>\<open>forEach\<close> over the slide maps, from index \<open>slideIndex\<close> on\<close>
  "processMediaFrom base64 slideIndex [] context = context"
| "processMediaFrom base64 slideIndex (slideMedia # rest) context =
     processMediaFrom base64 (Suc slideIndex) rest (processSlideMedia base64 slideIndex slideMedia context)"

definition processMedia ::
  "(string \<Rightarrow> string) \<Rightarrow> string PPTXPresentation \<Rightarrow> ConversionContext \<Rightarrow> ConversionContext" where
  "processMedia base64 presentation context =
     processMediaFrom base64 0 (pres_slideMediaMaps presentation) context"

section \<open>Sample inputs\<close>

definition video_without_embed :: xml where
  \<comment> \<open>a picture with a video link under its non-visual properties and a blip without \<^verbatim>\<open>r:embed\<close>\<close>
  "video_without_embed =
     XObj None
       [(''p:nvPicPr'', XObj None
           [(''p:cNvPr'', XObj (Some [(''id'', ''7''), (''name'', ''clip'')]) []),
            (''p:nvPr'', XObj None [(''a:videoFile'', XObj (Some [(''r:link'', ''rId3'')]) [])])]),
        (''p:blipFill'', XObj None [(''a:blip'', XStr [])])]"

definition two_slides_same_rId :: "string PPTXPresentation" where
  \<comment> \<open>two slides that both use \<^verbatim>\<open>rId1\<close>, for different media\<close>
  "two_slides_same_rId =
     \<lparr>pres_slides = [\<lparr>slide_id = ''slide-1'', slide_elements = []\<rparr>,
                     \<lparr>slide_id = ''slide-2'', slide_elements = []\<rparr>],
      pres_slideSize = (Some 9144000, Some 6858000),
      pres_media = [(''a.png'', \<lparr>md_data = ''PNG-A'', md_contentType = ''image/png''\<rparr>),
                    (''b.mp4'', \<lparr>md_data = ''MP4-B'', md_contentType = ''video/mp4''\<rparr>)],
      pres_slideMediaMaps =
        [[(''rId1'', \<lparr>md_data = ''PNG-A'', md_contentType = ''image/png''\<rparr>)],
         [(''rId1'', \<lparr>md_data = ''MP4-B'', md_contentType = ''video/mp4''\<rparr>)]]\<rparr>"

definition empty_context :: ParsingContext where
  "empty_context =
     \<lparr>slideContent = XObj None [], slideLayoutContent = XObj None [],
      slideMasterContent = XObj None [], themeContent = XObj None []\<rparr>"


definition grey_lumMod_200 :: xml where
  \<comment> \<open>the colour node \<^verbatim>\<open>999999\<close> with a luminance modulation of 200 percent\<close>
  "grey_lumMod_200 =
     XObj (Some [(''val'', ''999999'')]) [(''a:lumMod'', XObj (Some [(''val'', ''200000'')]) [])]"

definition sample_theme :: xml where
  "sample_theme =
     XObj None [(''a:theme'', XObj None [(''a:themeElements'', XObj None [(''a:clrScheme'',
       XObj (Some [(''name'', ''Office'')])
         [(''a:dk1'', XObj None [(''a:sysClr'', XObj (Some [(''val'', ''windowText''), (''lastClr'', ''000000'')]) [])]),
          (''a:lt1'', XObj None [(''a:sysClr'', XObj (Some [(''val'', ''window''), (''lastClr'', ''FFFFFF'')]) [])]),
          (''a:dk2'', XObj None [(''a:srgbClr'', XObj (Some [(''val'', ''44546A'')]) [])]),
          (''a:lt2'', XObj None [(''a:srgbClr'', XObj (Some [(''val'', ''E7E6E6'')]) [])]),
          (''a:accent1'', XObj None [(''a:srgbClr'', XObj (Some [(''val'', ''4472C4'')]) [])])])])])]"

definition dark_slide_context :: ParsingContext where
  \<comment> \<open>the master maps text to dark and background to light; the slide override swaps them\<close>
  "dark_slide_context =
     \<lparr>slideContent =
        XObj None [(''p:sld'', XObj None [(''p:clrMapOvr'', XObj None [(''a:overrideClrMapping'',
          XObj (Some [(''bg1'', ''dk1''), (''tx1'', ''lt1''), (''bg2'', ''dk2''), (''tx2'', ''lt2'')]) [])])])],
      slideLayoutContent =
        XObj None [(''p:sldLayout'', XObj None [(''p:clrMapOvr'', XObj None [(''a:masterClrMapping'', XStr [])])])],
      slideMasterContent =
        XObj None [(''p:sldMaster'', XObj None [(''p:clrMap'',
          XObj (Some [(''bg1'', ''lt1''), (''tx1'', ''dk1''), (''bg2'', ''lt2''), (''tx2'', ''dk2'')]) [])])],
      themeContent = sample_theme\<rparr>"

definition shape_with_text :: "xml \<Rightarrow> xml" where
  \<comment> \<open>a rectangle whose text body has one paragraph with one run; the argument is what
      the normaliser hands over for the \<^verbatim>\<open>a:t\<close> element of the run: \<open>XNum 0\<close> for
      \<^verbatim>\<open><a:t>0</a:t>\<close>\<close>
  "shape_with_text t =
     XObj None
       [(''p:nvSpPr'', XObj None [(''p:cNvPr'', XObj (Some [(''id'', ''2''), (''name'', ''Box'')]) [])]),
        (''p:spPr'', XObj None [(''a:prstGeom'', XObj (Some [(''prst'', ''rect'')]) [])]),
        (''p:txBody'', XObj None [(''a:p'', XObj None [(''a:r'', XObj None [(''a:t'', t)])])])]"

definition srgb_fill :: "string \<Rightarrow> xml" where
  "srgb_fill v = XObj None [(''a:srgbClr'', XObj (Some [(''val'', v)]) [])]"

definition preset_fill_with_alpha :: "string \<Rightarrow> string \<Rightarrow> xml" where
  \<comment> \<open>a solid fill with a preset colour of the given name and an alpha modifier\<close>
  "preset_fill_with_alpha name v =
     XObj None
       [(''a:prstClr'', XObj (Some [(''val'', name)])
           [(''a:alpha'', XObj (Some [(''val'', v)]) [])])]"

definition plain_run :: xml where
  \<comment> \<open>a run with no properties of its own\<close>
  "plain_run = XObj None [(''a:t'', XStr ''x'')]"

definition paragraph_with_default :: xml where
  \<comment> \<open>a paragraph whose default run properties are green\<close>
  "paragraph_with_default =
     XObj None
       [(''a:pPr'', XObj None [(''a:defRPr'', XObj None [(''a:solidFill'', srgb_fill ''00FF00'')])]),
        (''a:r'', plain_run)]"

definition paragraph_level0 :: xml where
  \<comment> \<open>a paragraph with no \<^verbatim>\<open>lvl\<close> attribute whose properties for level 0 are red\<close>
  "paragraph_level0 =
     XObj None
       [(''a:pPr'', XObj None
           [(''a:lvl0pPr'', XObj None [(''a:defRPr'', XObj None [(''a:solidFill'', srgb_fill ''FF0000'')])])]),
        (''a:r'', plain_run)]"

definition paragraph_level1 :: xml where
  \<comment> \<open>a paragraph of level 1 whose properties for level 1 are blue\<close>
  "paragraph_level1 =
     XObj None
       [(''a:pPr'', XObj (Some [(''lvl'', ''1'')])
           [(''a:lvl1pPr'', XObj None [(''a:defRPr'', XObj None [(''a:solidFill'', srgb_fill ''0000FF'')])])]),
        (''a:r'', plain_run)]"

definition body_of :: "xml \<Rightarrow> xml" where
  \<comment> \<open>a text body with that paragraph and a grey list style\<close>
  "body_of p =
     XObj None
       [(''a:lstStyle'', XObj None [(''a:defRPr'', XObj None [(''a:solidFill'', srgb_fill ''444444'')])]),
        (''a:p'', p)]"

definition sp_node :: "string \<Rightarrow> xml" where
  "sp_node i = XObj None [(''p:nvSpPr'', XObj None [(''p:cNvPr'', XObj (Some [(''id'', i)]) [])])]"

definition pic_node :: "string \<Rightarrow> xml" where
  "pic_node i =
     XObj None
       [(''p:nvPicPr'', XObj None [(''p:cNvPr'', XObj (Some [(''id'', i)]) [])]),
        (''p:blipFill'', XObj None [(''a:blip'', XObj (Some [(''r:embed'', ''rId1'')]) [])])]"

definition cxn_node :: "string \<Rightarrow> xml" where
  "cxn_node i = XObj None [(''p:nvCxnSpPr'', XObj None [(''p:cNvPr'', XObj (Some [(''id'', i)]) [])])]"

definition interleaved_children :: "(string \<times> xml) list" where
  \<comment> \<open>the children of a shape tree in document order: sp 1, pic 2, sp 3, cxnSp 4\<close>
  "interleaved_children =
     [(''p:nvGrpSpPr'', XStr []), (''p:grpSpPr'', XStr []),
      (''p:sp'', sp_node ''1''), (''p:pic'', pic_node ''2''),
      (''p:sp'', sp_node ''3''), (''p:cxnSp'', cxn_node ''4'')]"

definition slide_of_children :: "(string \<times> xml) list \<Rightarrow> ParsingContext" where
  "slide_of_children cs =
     empty_context
       \<lparr>slideContent :=
          XObj None [(''p:sld'', XObj None [(''p:cSld'', XObj None [(''p:spTree'', normalize_children cs)])])]\<rparr>"

section \<open>Properties\<close>

subsection \<open>Encrypted packages\<close>

text \<open>
  C9. When the archive holds an entry named \<^verbatim>\<open>EncryptedPackage\<close>, \<open>parsePPTX\<close> returns the
  protected-file error with its own code, whatever the rest of the archive and of the
  parser would do: no slide is looked at and no presentation is returned.
\<close>

theorem parsePPTX_encrypted_package_fails_fast:
  assumes "zip_file contents ''EncryptedPackage'' \<noteq> None"
  shows "parsePPTX pe contents = Inl (ConversionError ''ERR_PROTECTED_FILE'')
         \<and> (\<forall>p. parsePPTX pe contents \<noteq> Inr p)
         \<and> Errors_protectedFile \<noteq> Errors_corruptedFile"
  using assms by (simp add: parsePPTX_def Errors_protectedFile_def Errors_corruptedFile_def)

theorem parsePPTX_encrypted_package_witness:
  "\<forall>pe. zip_file [(''ppt/presentation.xml'', ''<p:presentation/>''), (''EncryptedPackage'', ''x'')]
           ''EncryptedPackage'' \<noteq> None
      \<and> parsePPTX pe [(''ppt/presentation.xml'', ''<p:presentation/>''), (''EncryptedPackage'', ''x'')]
          = Inl (ConversionError ''ERR_PROTECTED_FILE'')"
proof
  fix pe
  have h: "zip_file [(''ppt/presentation.xml'', ''<p:presentation/>''), (''EncryptedPackage'', ''x'')]
             ''EncryptedPackage'' \<noteq> None"
    by (simp add: zip_file_def)
  from parsePPTX_encrypted_package_fails_fast [OF h, of pe] h
  show "zip_file [(''ppt/presentation.xml'', ''<p:presentation/>''), (''EncryptedPackage'', ''x'')]
           ''EncryptedPackage'' \<noteq> None
      \<and> parsePPTX pe [(''ppt/presentation.xml'', ''<p:presentation/>''), (''EncryptedPackage'', ''x'')]
          = Inl (ConversionError ''ERR_PROTECTED_FILE'')"
    by blast
qed

subsection \<open>Pictures without an embedded image\<close>

text \<open>
  C10. A picture whose blip has no \<^verbatim>\<open>r:embed\<close> relationship id makes \<open>parsePicture\<close>
  return null, and the slide loop then leaves the element list as it was and raises
  nothing. The test comes before the video and audio links are read, so this holds
  whatever the non-visual properties of the picture carry.
\<close>

theorem parsePicture_without_embed_is_dropped:
  assumes "pic \<noteq> XUndef"
    and "\<not> str_truthy (attr (child (child pic ''p:blipFill'') ''a:blip'') ''r:embed'')"
  shows "parsePicture uuid pic = Inr None
         \<and> parseItems e context uuids ''p:pic'' [pic] (elements, n) = Inr (elements, Suc n)"
  using assms by (simp add: parsePicture_def parseItem_def Let_def)

theorem parsePicture_without_embed_witness:
  "\<forall>e context uuids.
     video_without_embed \<noteq> XUndef
     \<and> \<not> str_truthy (attr (child (child video_without_embed ''p:blipFill'') ''a:blip'') ''r:embed'')
     \<and> str_truthy (attr (child (child (child video_without_embed ''p:nvPicPr'') ''p:nvPr'') ''a:videoFile'') ''r:link'')
     \<and> parsePicture ''u'' video_without_embed = Inr None
     \<and> parseItems e context uuids ''p:pic'' [video_without_embed] ([], 0) = Inr ([], Suc 0)"
proof (intro allI)
  fix e :: env and ctx :: ParsingContext and uuids :: "nat \<Rightarrow> string"
  have h1: "video_without_embed \<noteq> XUndef" by (simp add: video_without_embed_def)
  have h2: "\<not> str_truthy (attr (child (child video_without_embed ''p:blipFill'') ''a:blip'') ''r:embed'')"
    by (simp add: video_without_embed_def child_def attr_def attrs_def str_truthy_def)
  have h3: "str_truthy (attr (child (child (child video_without_embed ''p:nvPicPr'') ''p:nvPr'') ''a:videoFile'') ''r:link'')"
    by (simp add: video_without_embed_def child_def attr_def attrs_def str_truthy_def)
  from parsePicture_without_embed_is_dropped [OF h1 h2, of "''u''" e ctx uuids "[]" 0] h1 h2 h3
  show "video_without_embed \<noteq> XUndef
     \<and> \<not> str_truthy (attr (child (child video_without_embed ''p:blipFill'') ''a:blip'') ''r:embed'')
     \<and> str_truthy (attr (child (child (child video_without_embed ''p:nvPicPr'') ''p:nvPr'') ''a:videoFile'') ''r:link'')
     \<and> parsePicture ''u'' video_without_embed = Inr None
     \<and> parseItems e ctx uuids ''p:pic'' [video_without_embed] ([], 0) = Inr ([], Suc 0)"
    by blast
qed

subsection \<open>Composite media keys\<close>

declare nat_to_base.simps [simp del]

lemma hex_digit_simps:
  "hex_digit 0 = CHR ''0''" "hex_digit 1 = CHR ''1''" "hex_digit 2 = CHR ''2''"
  "hex_digit 3 = CHR ''3''" "hex_digit 4 = CHR ''4''" "hex_digit 5 = CHR ''5''"
  "hex_digit 6 = CHR ''6''" "hex_digit 7 = CHR ''7''" "hex_digit 8 = CHR ''8''"
  "hex_digit 9 = CHR ''9''" "hex_digit 10 = CHR ''a''" "hex_digit 11 = CHR ''b''"
  "hex_digit 12 = CHR ''c''" "hex_digit 13 = CHR ''d''" "hex_digit 14 = CHR ''e''"
  "hex_digit 15 = CHR ''f''" "hex_digit (Suc 0) = CHR ''1''"
  by code_simp+

lemma digit_val_hex_digit: "d < 10 \<Longrightarrow> digit_val (hex_digit d) = Some d"
  by (simp add: digit_val_def hex_digit_def Let_def)

lemma hex_digit_not_underscore: "d < 10 \<Longrightarrow> hex_digit d \<noteq> CHR ''_''"
proof
  assume d: "d < 10" and e: "hex_digit d = CHR ''_''"
  from e have "of_char (hex_digit d) = (of_char (CHR ''_'') :: nat)" by simp
  with d show False by (simp add: hex_digit_def)
qed

lemma digits_val_snoc: "digits_val r (ds @ [c]) = digits_val r ds * r + the (digit_val c)"
  by (simp add: digits_val_def)

lemma digits_val_decimal: "digits_val 10 (nat_to_base 10 n) = n"
proof (induction "10 :: nat" n rule: nat_to_base.induct)
  case (1 n)
  show ?case
  proof (cases "n < 10")
    case True
    then show ?thesis
      by (simp add: nat_to_base.simps [of 10 n] digits_val_def digit_val_hex_digit)
  next
    case False
    with 1 have "digits_val 10 (nat_to_base 10 (n div 10)) = n div 10" by simp
    with False show ?thesis
      by (simp add: nat_to_base.simps [of 10 n] digits_val_snoc digit_val_hex_digit)
  qed
qed

lemma decimal_no_underscore: "CHR ''_'' \<notin> set (nat_to_base 10 n)"
proof (induction "10 :: nat" n rule: nat_to_base.induct)
  case (1 n)
  show ?case
  proof (cases "n < 10")
    case True
    then show ?thesis
      using hex_digit_not_underscore [of n] by (auto simp: nat_to_base.simps [of 10 n])
  next
    case False
    with 1 have "CHR ''_'' \<notin> set (nat_to_base 10 (n div 10))" by simp
    moreover have "hex_digit (n mod 10) \<noteq> CHR ''_''" by (rule hex_digit_not_underscore) simp
    ultimately show ?thesis using False by (auto simp: nat_to_base.simps [of 10 n])
  qed
qed

lemma split_at_first:
  assumes "c \<notin> set xs" and "c \<notin> set ys" and "xs @ c # r = ys @ c # s"
  shows "xs = ys \<and> r = s"
proof -
  have tw: "c \<notin> set zs \<Longrightarrow> takeWhile (\<lambda>x. x \<noteq> c) (zs @ c # t) = zs" for zs t
    by (induction zs) auto
  have a: "takeWhile (\<lambda>x. x \<noteq> c) (xs @ c # r) = xs" using assms(1) by (rule tw)
  have b: "takeWhile (\<lambda>x. x \<noteq> c) (ys @ c # s) = ys" using assms(2) by (rule tw)
  from a b assms(3) have "xs = ys" by simp
  with assms(3) show ?thesis by simp
qed

lemma mediaKey_inj: "mediaKey i r = mediaKey j s \<Longrightarrow> i = j \<and> r = s"
proof -
  assume e: "mediaKey i r = mediaKey j s"
  then have "nat_to_base 10 i @ CHR ''_'' # r = nat_to_base 10 j @ CHR ''_'' # s"
    by (simp add: mediaKey_def int_toString_def)
  from split_at_first [OF decimal_no_underscore decimal_no_underscore this]
  have d: "nat_to_base 10 i = nat_to_base 10 j" and rs: "r = s" by simp_all
  from d have "digits_val 10 (nat_to_base 10 i) = digits_val 10 (nat_to_base 10 j)" by simp
  then have "i = j" by (simp add: digits_val_decimal)
  with rs show ?thesis by simp
qed

lemma map_of_Map_set: "map_of (Map_set k v m) = (map_of m)(k \<mapsto> v)"
  by (induction m) (auto simp: fun_eq_iff)

lemma keys_Map_set: "set (map fst (Map_set k v m)) = insert k (set (map fst m))"
proof -
  have "fst ` set (Map_set k v m) = dom (map_of (Map_set k v m))"
    by (simp add: dom_map_of_conv_image_fst)
  also have "\<dots> = insert k (dom (map_of m))" by (simp add: map_of_Map_set)
  also have "\<dots> = insert k (fst ` set m)" by (simp add: dom_map_of_conv_image_fst)
  finally show ?thesis by simp
qed

lemma distinct_Map_set: "distinct (map fst m) \<Longrightarrow> distinct (map fst (Map_set k v m))"
proof (induction m)
  case Nil
  then show ?case by simp
next
  case (Cons p m)
  obtain k' v' where p: "p = (k', v')" by (cases p)
  from Cons have d: "distinct (map fst (Map_set k v m))" and n: "k' \<notin> set (map fst m)"
    by (simp_all add: p)
  show ?case
  proof (cases "k' = k")
    case True
    with Cons.prems show ?thesis by (simp add: p)
  next
    case False
    with n have "k' \<notin> set (map fst (Map_set k v m))" by (simp only: keys_Map_set) simp
    with d False show ?thesis by (simp add: p)
  qed
qed

lemma processSlideMedia_other:
  "(\<And>r. r \<in> fst ` set sm \<Longrightarrow> mediaKey i r \<noteq> k)
   \<Longrightarrow> Map_get (ctx_mediaMap (processSlideMedia b i sm c)) k = Map_get (ctx_mediaMap c) k"
proof (induction sm arbitrary: c)
  case Nil
  then show ?case by simp
next
  case (Cons p sm)
  obtain r m where p: "p = (r, m)" by (cases p)
  from Cons.prems have ne: "mediaKey i r \<noteq> k" by (simp add: p)
  from Cons.prems have rest: "\<And>r. r \<in> fst ` set sm \<Longrightarrow> mediaKey i r \<noteq> k" by simp
  show ?case
    using Cons.IH [OF rest] ne by (simp add: p Map_get_def map_of_Map_set)
qed

lemma processSlideMedia_hit:
  "distinct (map fst sm) \<Longrightarrow> map_of sm r = Some m
   \<Longrightarrow> Map_get (ctx_mediaMap (processSlideMedia b i sm c)) (mediaKey i r) = Some (toMediaInfo b m)"
proof (induction sm arbitrary: c)
  case Nil
  then show ?case by simp
next
  case (Cons p sm)
  obtain r' m' where p: "p = (r', m')" by (cases p)
  show ?case
  proof (cases "r' = r")
    case True
    with Cons.prems p have m: "m' = m" and notin: "r \<notin> fst ` set sm" by auto
    have "\<And>q. q \<in> fst ` set sm \<Longrightarrow> mediaKey i q \<noteq> mediaKey i r"
      using notin mediaKey_inj by blast
    from processSlideMedia_other [OF this] show ?thesis
      by (simp add: p True m Map_get_def map_of_Map_set)
  next
    case False
    with Cons.prems p have "distinct (map fst sm)" "map_of sm r = Some m" by auto
    from Cons.IH [OF this] show ?thesis by (simp add: p)
  qed
qed

lemma processMediaFrom_other:
  "(\<And>n r. k \<noteq> mediaKey (i + n) r \<or> n \<ge> length maps)
   \<Longrightarrow> Map_get (ctx_mediaMap (processMediaFrom b i maps c)) k = Map_get (ctx_mediaMap c) k"
proof (induction maps arbitrary: i c)
  case Nil
  then show ?case by simp
next
  case (Cons sm maps)
  have a: "\<And>n r. k \<noteq> mediaKey (Suc i + n) r \<or> n \<ge> length maps"
    using Cons.prems [of "Suc _"] by auto
  have b: "\<And>r. r \<in> fst ` set sm \<Longrightarrow> mediaKey i r \<noteq> k"
    using Cons.prems [of 0] by auto
  show ?case
    using Cons.IH [OF a] processSlideMedia_other [OF b] by simp
qed

lemma processMediaFrom_hit:
  "n < length maps \<Longrightarrow> distinct (map fst (maps ! n)) \<Longrightarrow> map_of (maps ! n) r = Some m
   \<Longrightarrow> Map_get (ctx_mediaMap (processMediaFrom b i maps c)) (mediaKey (i + n) r) = Some (toMediaInfo b m)"
proof (induction maps arbitrary: i n c)
  case Nil
  then show ?case by simp
next
  case (Cons sm maps)
  show ?case
  proof (cases n)
    case 0
    have "\<And>n' r'. mediaKey i r \<noteq> mediaKey (Suc i + n') r' \<or> n' \<ge> length maps"
      using mediaKey_inj by fastforce
    from processMediaFrom_other [OF this]
    have "Map_get (ctx_mediaMap (processMediaFrom b (Suc i) maps (processSlideMedia b i sm c))) (mediaKey i r)
          = Map_get (ctx_mediaMap (processSlideMedia b i sm c)) (mediaKey i r)" .
    with Cons.prems 0 show ?thesis by (simp add: processSlideMedia_hit)
  next
    case (Suc n')
    with Cons.prems have "n' < length maps" "distinct (map fst (maps ! n'))" "map_of (maps ! n') r = Some m"
      by auto
    from Cons.IH [OF this, of "Suc i"] Suc show ?thesis by simp
  qed
qed

text \<open>The per-slide maps that \<open>parsePPTX\<close> builds have distinct keys, as every \<^verbatim>\<open>Map\<close> has.\<close>

lemma distinct_collectSlideMedia:
  "distinct (map fst acc) \<Longrightarrow> distinct (map fst (collectSlideMedia rels mediaMap acc))"
  by (induction rels mediaMap acc rule: collectSlideMedia.induct)
     (auto simp: distinct_Map_set split: option.splits)

lemma parseSlides_maps_distinct:
  "parseSlides pe contents mediaMap files i (ss, ms) = Inr (ss', ms')
   \<Longrightarrow> list_all (\<lambda>m. distinct (map fst m)) ms \<Longrightarrow> list_all (\<lambda>m. distinct (map fst m)) ms'"
proof (induction files arbitrary: i ss ms)
  case Nil
  then show ?case by simp
next
  case (Cons f files)
  from Cons.prems(1) obtain slide where
    step: "parseSlides pe contents mediaMap files (i + 1)
             (ss @ [slide],
              ms @ [collectSlideMedia (parseSlideRels (parseXml pe) contents (i + 1)) mediaMap []])
           = Inr (ss', ms')"
    by (auto simp: Let_def split: sum.splits)
  have "list_all (\<lambda>m. distinct (map fst m))
          (ms @ [collectSlideMedia (parseSlideRels (parseXml pe) contents (i + 1)) mediaMap []])"
    using Cons.prems(2) by (simp add: distinct_collectSlideMedia)
  from Cons.IH [OF step this] show ?case .
qed

lemma parsePPTX_slideMediaMaps_distinct:
  "parsePPTX pe contents = Inr pres \<Longrightarrow> list_all (\<lambda>m. distinct (map fst m)) (pres_slideMediaMaps pres)"
proof -
  assume a: "parsePPTX pe contents = Inr pres"
  then obtain ss ms where
    r: "parseSlides pe contents (collectMedia contents []) (getContentTypes pe contents) 0 ([], []) = Inr (ss, ms)"
    and p: "pres_slideMediaMaps pres = ms"
    by (auto simp: parsePPTX_def Let_def split: if_splits sum.splits)
  from parseSlides_maps_distinct [OF r] p show ?thesis by simp
qed

text \<open>
  C2. Two slides \<open>i \<noteq> j\<close> whose maps both hold the relationship id \<open>rId\<close>: the keys
  \<^verbatim>\<open>i_rId\<close> and \<^verbatim>\<open>j_rId\<close> differ, and after \<open>processMedia\<close> the media map of the
  conversion context returns the entry of slide \<open>i\<close> under the first key and the entry of
  slide \<open>j\<close> under the second.
\<close>

theorem processMedia_composite_keys:
  assumes "i < length (pres_slideMediaMaps pres)" and "j < length (pres_slideMediaMaps pres)"
    and "i \<noteq> j"
    and "distinct (map fst (pres_slideMediaMaps pres ! i))"
    and "distinct (map fst (pres_slideMediaMaps pres ! j))"
    and "Map_get (pres_slideMediaMaps pres ! i) rId = Some m1"
    and "Map_get (pres_slideMediaMaps pres ! j) rId = Some m2"
  shows "mediaKey i rId \<noteq> mediaKey j rId
       \<and> Map_get (ctx_mediaMap (processMedia base64 pres ctx)) (mediaKey i rId) = Some (toMediaInfo base64 m1)
       \<and> Map_get (ctx_mediaMap (processMedia base64 pres ctx)) (mediaKey j rId) = Some (toMediaInfo base64 m2)"
proof -
  have "mediaKey i rId \<noteq> mediaKey j rId" using assms(3) mediaKey_inj by blast
  moreover have "Map_get (ctx_mediaMap (processMedia base64 pres ctx)) (mediaKey i rId) = Some (toMediaInfo base64 m1)"
    using processMediaFrom_hit [OF assms(1) assms(4), of rId m1 base64 0 ctx] assms(6)
    by (simp add: processMedia_def Map_get_def)
  moreover have "Map_get (ctx_mediaMap (processMedia base64 pres ctx)) (mediaKey j rId) = Some (toMediaInfo base64 m2)"
    using processMediaFrom_hit [OF assms(2) assms(5), of rId m2 base64 0 ctx] assms(7)
    by (simp add: processMedia_def Map_get_def)
  ultimately show ?thesis by simp
qed

theorem processMedia_composite_keys_witness:
  "\<forall>base64 ctx.
     mediaKey 0 ''rId1'' = ''0_rId1'' \<and> mediaKey 1 ''rId1'' = ''1_rId1''
     \<and> Map_get (ctx_mediaMap (processMedia base64 two_slides_same_rId ctx)) ''0_rId1''
         = Some \<lparr>mi_type = Image, mi_data = base64 ''PNG-A'', mi_mimeType = ''image/png''\<rparr>
     \<and> Map_get (ctx_mediaMap (processMedia base64 two_slides_same_rId ctx)) ''1_rId1''
         = Some \<lparr>mi_type = Video, mi_data = base64 ''MP4-B'', mi_mimeType = ''video/mp4''\<rparr>"
proof (intro allI)
  fix base64 :: "string \<Rightarrow> string" and ctx :: ConversionContext
  let ?a = "\<lparr>md_data = ''PNG-A'', md_contentType = ''image/png''\<rparr>"
  let ?b = "\<lparr>md_data = ''MP4-B'', md_contentType = ''video/mp4''\<rparr>"
  have k: "mediaKey 0 ''rId1'' = ''0_rId1''" "mediaKey 1 ''rId1'' = ''1_rId1''"
    by (simp_all add: mediaKey_def int_toString_def nat_to_base.simps hex_digit_simps)
  have h: "(0::nat) < length (pres_slideMediaMaps two_slides_same_rId)"
    "(1::nat) < length (pres_slideMediaMaps two_slides_same_rId)" "(0::nat) \<noteq> 1"
    "distinct (map fst (pres_slideMediaMaps two_slides_same_rId ! 0))"
    "distinct (map fst (pres_slideMediaMaps two_slides_same_rId ! 1))"
    "Map_get (pres_slideMediaMaps two_slides_same_rId ! 0) ''rId1'' = Some ?a"
    "Map_get (pres_slideMediaMaps two_slides_same_rId ! 1) ''rId1'' = Some ?b"
    by (simp_all add: two_slides_same_rId_def Map_get_def)
  from processMedia_composite_keys [OF h, of base64 ctx] k
  show "mediaKey 0 ''rId1'' = ''0_rId1'' \<and> mediaKey 1 ''rId1'' = ''1_rId1''
     \<and> Map_get (ctx_mediaMap (processMedia base64 two_slides_same_rId ctx)) ''0_rId1''
         = Some \<lparr>mi_type = Image, mi_data = base64 ''PNG-A'', mi_mimeType = ''image/png''\<rparr>
     \<and> Map_get (ctx_mediaMap (processMedia base64 two_slides_same_rId ctx)) ''1_rId1''
         = Some \<lparr>mi_type = Video, mi_data = base64 ''MP4-B'', mi_mimeType = ''video/mp4''\<rparr>"
    by (simp add: toMediaInfo_def startsWith_def)
qed

subsection \<open>Tint and shade at the ends of their range\<close>

text \<open>
  C8. With factor 1 tint and shade write back the HSL form of the input unchanged; with
  factor 0 tint sets the lightness to 1 (white) and shade sets it to 0 (black). The
  lightness of an HSL colour is at most 1, which the shade case uses.
\<close>

theorem tint_shade_boundaries:
  assumes "hsl_l (toHsl tc hexColor) \<le> 1"
  shows "applyTint tc hexColor 1 hasAlpha = hexOf tc hasAlpha (toHsl tc hexColor)
       \<and> applyShade tc hexColor 1 hasAlpha = hexOf tc hasAlpha (toHsl tc hexColor)
       \<and> applyTint tc hexColor 0 hasAlpha = hexOf tc hasAlpha ((toHsl tc hexColor)\<lparr>hsl_l := 1\<rparr>)
       \<and> applyShade tc hexColor 0 hasAlpha = hexOf tc hasAlpha ((toHsl tc hexColor)\<lparr>hsl_l := 0\<rparr>)"
  using assms
  by (simp add: applyTint_def applyShade_def tintHsl_def shadeHsl_def Let_def min_def)

lemma ref_toHsl_336699: "ref_toHsl (JStr ''336699'') = \<lparr>hsl_h = 210, hsl_s = 1 / 2, hsl_l = 2 / 5, hsl_a = 1\<rparr>"
  by (simp add: ref_toHsl_def ref_parse_def ref_rgbToHsl_def Let_def startsWith_def is_digit_def
      digit_val_def digits_val_def)

lemma ref_hslToHex_samples:
  "ref_hslToHex \<lparr>hsl_h = 210, hsl_s = 1 / 2, hsl_l = 2 / 5, hsl_a = 1\<rparr> = ''336699''"
  "ref_hslToHex \<lparr>hsl_h = 210, hsl_s = 1 / 2, hsl_l = 1, hsl_a = 1\<rparr> = ''ffffff''"
  "ref_hslToHex \<lparr>hsl_h = 210, hsl_s = 1 / 2, hsl_l = 0, hsl_a = 1\<rparr> = ''000000''"
  by code_simp+

theorem tint_shade_boundaries_witness:
  "hsl_l (toHsl tinycolor_ref (JStr ''336699'')) \<le> 1
   \<and> applyTint tinycolor_ref (JStr ''336699'') 1 False = ''336699''
   \<and> applyShade tinycolor_ref (JStr ''336699'') 1 False = ''336699''
   \<and> applyTint tinycolor_ref (JStr ''336699'') 0 False = ''ffffff''
   \<and> applyShade tinycolor_ref (JStr ''336699'') 0 False = ''000000''"
proof -
  have h: "hsl_l (toHsl tinycolor_ref (JStr ''336699'')) \<le> 1"
    by (simp add: tinycolor_ref_def ref_toHsl_336699)
  from tint_shade_boundaries [OF h, of False] h show ?thesis
    by (simp add: hexOf_def tinycolor_ref_def ref_toHsl_336699 ref_hslToHex_samples)
qed

subsection \<open>Order of the colour modifiers\<close>

text \<open>
  C5, as stated, has luminance modulation multiply the lightness and hue modulation
  multiply the hue. The resolver caps the product of the lightness at 1 and takes 360
  off a hue that reaches 360: on the grey \<^verbatim>\<open>999999\<close> (lightness 3/5) a luminance
  modulation of 200 percent gives lightness 1, not 6/5, and on the blue \<^verbatim>\<open>3366CC\<close>
  (hue 220) a hue modulation by 2 gives 80, not 440.
\<close>

theorem lumMod_hueMod_counterexample:
  "modifierValue grey_lumMod_200 ''a:lumMod'' = Some 2
   \<and> hsl_l (claimed_hsl LumMod 2 (toHsl tinycolor_ref (JStr ''999999''))) = 6 / 5
   \<and> hsl_l (lumModHsl 2 (toHsl tinycolor_ref (JStr ''999999''))) = 1
   \<and> hsl_h (claimed_hsl HueMod 2 (toHsl tinycolor_ref (JStr ''3366CC''))) = 440
   \<and> hsl_h (hueModHsl 2 (toHsl tinycolor_ref (JStr ''3366CC''))) = 80"
proof -
  have a: "ref_toHsl (JStr ''999999'') = \<lparr>hsl_h = 0, hsl_s = 0, hsl_l = 3 / 5, hsl_a = 1\<rparr>"
    by (simp add: ref_toHsl_def ref_parse_def ref_rgbToHsl_def Let_def startsWith_def is_digit_def
        digit_val_def digits_val_def)
  have b: "ref_toHsl (JStr ''3366CC'') = \<lparr>hsl_h = 220, hsl_s = 3 / 5, hsl_l = 1 / 2, hsl_a = 1\<rparr>"
    by (simp add: ref_toHsl_def ref_parse_def ref_rgbToHsl_def Let_def startsWith_def is_digit_def
        digit_val_def digits_val_def)
  have c: "modifierValue grey_lumMod_200 ''a:lumMod'' = Some 2"
    by (simp add: modifierValue_def grey_lumMod_200_def getTextByPathList_def truthy_def child_def
        attr_def attrs_def str_or_def parseInt_def strip_sign_def js_space_def startsWith_def
        parse_digits_def is_digit_def digit_val_def digits_val_def apply_sign_def)
  show ?thesis
    by (simp add: c tinycolor_ref_def a b lumModHsl_def hueModHsl_def Let_def)
qed

lemma modifier_steps:
  "applyHueMod tc c v ha = hexOf tc ha (amended_hsl HueMod v (toHsl tc c))"
  "applyLumMod tc c v ha = hexOf tc ha (amended_hsl LumMod v (toHsl tc c))"
  "applyLumOff tc c v ha = hexOf tc ha (amended_hsl LumOff v (toHsl tc c))"
  "applySatMod tc c v ha = hexOf tc ha (amended_hsl SatMod v (toHsl tc c))"
  "applyShade tc c v ha = hexOf tc ha (amended_hsl Shade v (toHsl tc c))"
  "applyTint tc c v ha = hexOf tc ha (amended_hsl Tint v (toHsl tc c))"
  by (simp_all add: applyHueMod_def applyLumMod_def applyLumOff_def applySatMod_def
      applyShade_def applyTint_def hueModHsl_def lumModHsl_def lumOffHsl_def satModHsl_def
      shadeHsl_def tintHsl_def Let_def add.commute)

lemma modifier_chain_unfold:
  "modifier_chain ops tc ha clrNode c0 =
     (let step = (\<lambda>m c. case modifierValue clrNode (modifier_key m) of
                          None \<Rightarrow> c
                        | Some v \<Rightarrow> JStr (hexOf tc ha (ops m v (toHsl tc c))))
      in step Tint (step Shade (step SatMod (step LumOff (step LumMod (step HueMod c0))))))"
  by (simp add: modifier_chain_def modifier_order_def)

lemma applyColorModifiers_unfold:
  "applyColorModifiers tc color clrNode mergeAlpha =
     (let start = (case modifierValue clrNode ''a:alpha'' of
                     None \<Rightarrow> (color, None, False)
                   | Some a \<Rightarrow> if mergeAlpha then (JStr (setAlphaToHex8 tc color a), None, True)
                              else (color, Some a, False));
          ha = snd (snd start);
          step = (\<lambda>m c. case modifierValue clrNode (modifier_key m) of
                          None \<Rightarrow> c
                        | Some v \<Rightarrow> JStr (hexOf tc ha (amended_hsl m v (toHsl tc c))))
      in (step Tint (step Shade (step SatMod (step LumOff (step LumMod (step HueMod (fst start)))))),
          fst (snd start)))"
  unfolding applyColorModifiers_def modifier_steps Let_def
  by (simp only: modifier_key.simps split_beta fst_conv snd_conv)

text \<open>
  C5, amended. The colour that \<open>applyColorModifiers\<close> returns is the chain of the six
  modifiers in the fixed order hue modulation, luminance modulation, luminance offset,
  saturation modulation, shade, tint, each on the HSL form of the colour the step before
  it produced, with the capped operations. The alpha modifier is no step of the chain:
  it is returned beside the colour, or merged into the hex string the chain starts from.
\<close>

theorem applyColorModifiers_order:
  "applyColorModifiers tc color clrNode mergeAlpha =
     (case modifierValue clrNode ''a:alpha'' of
        None \<Rightarrow> (modifier_chain amended_hsl tc False clrNode color, None)
      | Some a \<Rightarrow>
          if mergeAlpha
          then (modifier_chain amended_hsl tc True clrNode (JStr (setAlphaToHex8 tc color a)), None)
          else (modifier_chain amended_hsl tc False clrNode color, Some a))"
proof (cases "modifierValue clrNode ''a:alpha''")
  case None
  show ?thesis
    unfolding applyColorModifiers_unfold modifier_chain_unfold None
    by (simp only: Let_def option.case fst_conv snd_conv)
next
  case (Some a)
  show ?thesis
  proof (cases mergeAlpha)
    case True
    show ?thesis
      unfolding applyColorModifiers_unfold modifier_chain_unfold Some
      by (simp only: Let_def option.case fst_conv snd_conv True if_True)
  next
    case False
    show ?thesis
      unfolding applyColorModifiers_unfold modifier_chain_unfold Some
      by (simp only: Let_def option.case fst_conv snd_conv False if_False)
  qed
qed

subsection \<open>Alpha of a solid fill\<close>

declare resolveSolidFill.simps [simp del]
declare resolveSolidFillWithAlpha.simps [simp del]







text \<open>
  A preset colour named \<^verbatim>\<open>constructor\<close> is answered by the member the table of presets
  inherits. With an alpha modifier alone nothing turns that member into a string, and
  the resolver raises a \<^verbatim>\<open>TypeError\<close> where it asks for the prefix of the colour.
\<close>

lemma preset_constructor:
  "table_get PRESET_COLORS (toLowerCase ''constructor'') = Some (JMember ''constructor'')"
  by code_simp

lemma resolveSolidFillWithAlpha_inherited_member:
  "resolveSolidFillWithAlpha tc (preset_fill_with_alpha ''constructor'' ''50000'') context None None
     = Inl TypeError"
proof -
  have v: "parseInt ''50000'' = Some 50000"
    by (simp add: parseInt_def strip_sign_def js_space_def startsWith_def parse_digits_def
        is_digit_def digit_val_def digits_val_def apply_sign_def)
  have b: "parseBaseColor (preset_fill_with_alpha ''constructor'' ''50000'') context None None
             = (JMember ''constructor'',
                XObj (Some [(''val'', ''constructor'')]) [(''a:alpha'', XObj (Some [(''val'', ''50000'')]) [])])"
    unfolding parseBaseColor_def preset_fill_with_alpha_def
    by (simp add: truthy_def child_def attr_def attrs_def str_or_def Let_def preset_constructor
        jsval_or_def jsval_truthy_def del: toLowerCase_def)
  have t: "truthy (preset_fill_with_alpha ''constructor'' ''50000'')" "truthy (XObj a kids)" for a kids
    by (simp_all add: preset_fill_with_alpha_def truthy_def)
  have none: "parseInt [] = None"
    by (simp add: parseInt_def strip_sign_def startsWith_def parse_digits_def apply_sign_def)
  have m: "modifierValue (XObj (Some [(''val'', ''constructor'')])
                            [(''a:alpha'', XObj (Some [(''val'', ''50000'')]) [])]) key
             = (if key = ''a:alpha'' then Some (1 / 2) else None)" for key
    by (simp add: modifierValue_def getTextByPathList_def truthy_def child_def attr_def attrs_def
        str_or_def v none)
  have r: "applyColorModifiers tc (JMember ''constructor'')
             (XObj (Some [(''val'', ''constructor'')]) [(''a:alpha'', XObj (Some [(''val'', ''50000'')]) [])])
             False = (JMember ''constructor'', Some (1 / 2))"
    by (simp add: applyColorModifiers_def m Let_def)
  show ?thesis
    by (subst resolveSolidFillWithAlpha.simps)
       (simp add: b t r Let_def jsval_truthy_def with_hash_def)
qed

subsection \<open>Scheme colours\<close>

lemma slot_lookup:
  "(let refNode = R; color = str_or (attr (child refNode s) v) []
    in if color = [] \<and> truthy refNode then str_or (attr (child refNode t) w) [] else color)
   = str_or (attr (child R s) v) (str_or (attr (child R t) w) [])"
proof -
  have fb: "\<not> truthy R \<Longrightarrow> attr (child R k) n = None" for k n
    by (cases R) (auto simp: truthy_def child_def attr_def attrs_def)
  show ?thesis
  proof (cases "str_or (attr (child R s) v) [] = []")
    case True
    then have e: "str_or (attr (child R s) v) d = d" for d
      by (auto simp: str_or_def split: option.splits if_splits)
    show ?thesis
    proof (cases "truthy R")
      case True
      then show ?thesis by (simp add: Let_def e)
    next
      case False
      then show ?thesis by (simp add: Let_def e fb str_or_def)
    qed
  next
    case False
    then have e: "str_or (attr (child R s) v) d = str_or (attr (child R s) v) []" for d
      by (auto simp: str_or_def split: option.splits if_splits)
    from False show ?thesis by (simp add: Let_def e [of "str_or (attr (child R t) w) []"])
  qed
qed

text \<open>
  C6. With no colour map argument, the colour map used is the first one found among
  the slide override, the layout override and the colour map of the master. The names
  \<^verbatim>\<open>tx1\<close>, \<^verbatim>\<open>tx2\<close>, \<^verbatim>\<open>bg1\<close>, \<^verbatim>\<open>bg2\<close> go through it to a slot of the theme, every other
  name is its own slot, and the result is the value of that slot in the colour scheme of
  the theme: \<^verbatim>\<open>srgbClr val\<close>, else \<^verbatim>\<open>sysClr lastClr\<close>. (The placeholder colour
  \<^verbatim>\<open>phClr\<close>, when one is passed, is returned as it is.)
\<close>

theorem getSchemeColorFromTheme_mapped_slot:
  assumes "spec_first_found (spec_color_map_candidates context) = Some m"
    and "\<not> (name = ''phClr'' \<and> str_truthy phClr)"
  shows "getSchemeColorFromTheme (''a:'' @ name) context None phClr
           = spec_slot_value context (spec_physical_slot m name)"
proof -
  have sp: "strip_a_prefix (''a:'' @ name) = name"
    by (simp add: strip_a_prefix_def startsWith_def)
  have ov: "(case attrs (getTextByPathList (slideContent context)
                          [''p:sld'', ''p:clrMapOvr'', ''a:overrideClrMapping'']) of
               Some sldClrMapOvr \<Rightarrow> Some sldClrMapOvr
             | None \<Rightarrow>
                 (case attrs (getTextByPathList (slideLayoutContent context)
                          [''p:sldLayout'', ''p:clrMapOvr'', ''a:overrideClrMapping'']) of
                    Some layoutClrMapOvr \<Rightarrow> Some layoutClrMapOvr
                  | None \<Rightarrow> attrs (getTextByPathList (slideMasterContent context)
                                     [''p:sldMaster'', ''p:clrMap'']))) = Some m"
    using assms(1)
    by (auto simp: spec_first_found_def spec_color_map_candidates_def split: option.splits if_splits)
  have th: "getTextByPathList (themeContent context)
              [''a:theme'', ''a:themeElements'', ''a:clrScheme'', k]
            = child (child (child (child (themeContent context) ''a:theme'') ''a:themeElements'')
                ''a:clrScheme'') k" for k
    by (cases "themeContent context") (auto simp: getTextByPathList_def truthy_def child_def)
  have mapped: "(if name \<in> set [''tx1'', ''tx2'', ''bg1'', ''bg2'']
                 then ''a:'' @ str_or (map_of m name) name else ''a:'' @ name)
                = ''a:'' @ spec_physical_slot m name"
    by (simp only: spec_physical_slot_def if_distrib [of "\<lambda>x. ''a:'' @ x"])
  have "getSchemeColorFromTheme (''a:'' @ name) context None phClr
        = (let refNode = child (child (child (child (themeContent context) ''a:theme'')
                           ''a:themeElements'') ''a:clrScheme'') (''a:'' @ spec_physical_slot m name);
               color = str_or (attr (child refNode ''a:srgbClr'') ''val'') []
           in if color = [] \<and> truthy refNode
              then str_or (attr (child refNode ''a:sysClr'') ''lastClr'') [] else color)"
    unfolding getSchemeColorFromTheme_def
    by (simp only: option.case sp ov Let_def assms(2) if_False th mapped)
  also have "\<dots> = str_or (attr (child (child (child (child (child (themeContent context) ''a:theme'')
                           ''a:themeElements'') ''a:clrScheme'') (''a:'' @ spec_physical_slot m name))
                           ''a:srgbClr'') ''val'')
                    (str_or (attr (child (child (child (child (child (themeContent context) ''a:theme'')
                           ''a:themeElements'') ''a:clrScheme'') (''a:'' @ spec_physical_slot m name))
                           ''a:sysClr'') ''lastClr'') [])"
    by (rule slot_lookup)
  also have "\<dots> = spec_slot_value context (spec_physical_slot m name)"
    by (simp only: spec_slot_value_def Let_def)
  finally show ?thesis .
qed

theorem getSchemeColorFromTheme_witness:
  "spec_first_found (spec_color_map_candidates dark_slide_context)
     = Some [(''bg1'', ''dk1''), (''tx1'', ''lt1''), (''bg2'', ''dk2''), (''tx2'', ''lt2'')]
   \<and> \<not> (''tx1'' = ''phClr'' \<and> str_truthy None)
   \<and> getSchemeColorFromTheme ''a:tx1'' dark_slide_context None None = ''FFFFFF''
   \<and> spec_slot_value dark_slide_context ''dk2'' = ''44546A''"
proof -
  let ?m = "[(''bg1'', ''dk1''), (''tx1'', ''lt1''), (''bg2'', ''dk2''), (''tx2'', ''lt2'')]"
  have h1: "spec_first_found (spec_color_map_candidates dark_slide_context) = Some ?m"
    by (simp add: spec_first_found_def spec_color_map_candidates_def dark_slide_context_def
        getTextByPathList_def truthy_def child_def attrs_def)
  have h2: "\<not> (''tx1'' = ''phClr'' \<and> str_truthy None)" by (simp add: str_truthy_def)
  have v: "spec_slot_value dark_slide_context (spec_physical_slot ?m ''tx1'') = ''FFFFFF''"
    "spec_slot_value dark_slide_context ''dk2'' = ''44546A''"
    by (simp_all add: spec_slot_value_def spec_physical_slot_def dark_slide_context_def
        sample_theme_def child_def attr_def attrs_def str_or_def)
  from getSchemeColorFromTheme_mapped_slot [OF h1 h2] h1 h2 v show ?thesis by simp
qed

subsection \<open>Text colour\<close>

lemma sample_fill:
  "resolveSolidFill tc (srgb_fill v) context None None
     = Inr (if v \<noteq> [] \<and> \<not> startsWith v ''#'' then CHR ''#'' # v else v)"
  by (subst resolveSolidFill.simps)
     (simp add: srgb_fill_def parseBaseColor_def truthy_def child_def attr_def attrs_def str_or_def
        jsval_truthy_def applyColorModifiers_def modifierValue_def getTextByPathList_def
        parseInt_def strip_sign_def parse_digits_def apply_sign_def with_hash_def Let_def)

lemma sample_fill_truthy: "truthy (srgb_fill v)"
  by (simp add: srgb_fill_def truthy_def)

lemma truthy_simps:
  "\<not> truthy XUndef" "truthy (XStr s) = (s \<noteq> [])" "truthy (XNum n) = (n \<noteq> 0)"
  "truthy (XBool b) = b" "truthy (XObj a kids)" "truthy (XArr xs)"
  by (simp_all add: truthy_def)

text \<open>
  C7, as stated, has every run take the colour of the first populated level, the third
  level being that of the nesting level of the paragraph. Two inputs show otherwise.
  A run with no fill of its own in a paragraph whose default run properties are green:
  the run loop of the single-file parser leaves the colour undefined. A paragraph that
  writes no \<^verbatim>\<open>lvl\<close>, so of nesting level 0, whose properties for level 0 are red, in a
  body whose list style is grey: \<open>resolveTextColor\<close> passes the list level over and
  returns the grey.
\<close>

theorem text_color_counterexample:
  "first_populated_color tinycolor_ref empty_context
       (claimed_color_levels plain_run paragraph_with_default (body_of paragraph_with_default))
     = Inr (Some ''#00FF00'')
   \<and> runColor_single_file tinycolor_ref plain_run empty_context = Inr None
   \<and> first_populated_color tinycolor_ref empty_context
       (claimed_color_levels plain_run paragraph_level0 (body_of paragraph_level0))
     = Inr (Some ''#FF0000'')
   \<and> resolveTextColor tinycolor_ref plain_run paragraph_level0 (body_of paragraph_level0) empty_context
     = Inr (Some ''#444444'')"
proof -
  have k: "int_toString 10 (Some 0) = ''0''"
    by (simp add: int_toString_def nat_to_base.simps hex_digit_simps)
  have a: "first_populated_color tinycolor_ref empty_context
             (claimed_color_levels plain_run paragraph_with_default (body_of paragraph_with_default))
           = Inr (Some ''#00FF00'')"
    by (simp add: first_populated_color_def claimed_color_levels_def nesting_level_def plain_run_def
        paragraph_with_default_def body_of_def child_def attr_def attrs_def truthy_simps k
        sample_fill_truthy sample_fill startsWith_def)
  have b: "runColor_single_file tinycolor_ref plain_run empty_context = Inr None"
    by (simp add: runColor_single_file_def plain_run_def child_def truthy_simps)
  have c: "first_populated_color tinycolor_ref empty_context
             (claimed_color_levels plain_run paragraph_level0 (body_of paragraph_level0))
           = Inr (Some ''#FF0000'')"
    by (simp add: first_populated_color_def claimed_color_levels_def nesting_level_def plain_run_def
        paragraph_level0_def body_of_def child_def attr_def attrs_def truthy_simps k sample_fill_truthy
        sample_fill startsWith_def)
  have d: "resolveTextColor tinycolor_ref plain_run paragraph_level0 (body_of paragraph_level0) empty_context
           = Inr (Some ''#444444'')"
    by (simp add: resolveTextColor_def plain_run_def paragraph_level0_def body_of_def child_def
        attr_def attrs_def truthy_simps sample_fill_truthy sample_fill startsWith_def Let_def)
  from a b c d show ?thesis by simp
qed

text \<open>
  C7, amended. \<open>resolveTextColor\<close> returns the colour of the first populated fill among:
  the run properties, the default run properties of the paragraph, the default run
  properties of the list level named by the \<^verbatim>\<open>lvl\<close> attribute of the paragraph
  properties as it is written (no level when it is not written), and the default run
  properties of the list style of the text body. When none is populated the colour is
  undefined.
\<close>

theorem resolveTextColor_first_populated:
  "resolveTextColor tc run paragraph txBody context
     = first_populated_color tc context (amended_color_levels run paragraph txBody)"
proof -
  have g: "\<not> truthy node \<Longrightarrow> attr node n = None" for node n
    by (cases node) (auto simp: truthy_def attr_def attrs_def)
  have u: "\<not> truthy XUndef" by (simp add: truthy_def)
  show ?thesis
    by (cases "truthy (child paragraph ''a:pPr'')")
       (auto simp: resolveTextColor_def first_populated_color_def amended_color_levels_def Let_def g u
             split: option.splits)
qed

theorem resolveTextColor_first_populated_witness:
  "resolveTextColor tinycolor_ref plain_run paragraph_level1 (body_of paragraph_level1) empty_context
     = Inr (Some ''#0000FF'')
   \<and> resolveTextColor tinycolor_ref plain_run paragraph_with_default (body_of paragraph_with_default)
       empty_context
     = Inr (Some ''#00FF00'')"
proof -
  have k: "parseInt10 ''1'' = Some 1" "int_toString 10 (Some 1) = ''1''"
    by (simp_all add: parseInt10_def strip_sign_def js_space_def parse_digits_def is_digit_def
        digit_val_def digits_val_def apply_sign_def int_toString_def nat_to_base.simps hex_digit_simps)
  have a: "first_populated_color tinycolor_ref empty_context
             (amended_color_levels plain_run paragraph_level1 (body_of paragraph_level1))
           = Inr (Some ''#0000FF'')"
    by (simp add: first_populated_color_def amended_color_levels_def plain_run_def
        paragraph_level1_def body_of_def child_def attr_def attrs_def truthy_simps k sample_fill_truthy
        sample_fill startsWith_def)
  have b: "first_populated_color tinycolor_ref empty_context
             (amended_color_levels plain_run paragraph_with_default (body_of paragraph_with_default))
           = Inr (Some ''#00FF00'')"
    by (simp add: first_populated_color_def amended_color_levels_def plain_run_def
        paragraph_with_default_def body_of_def child_def attr_def attrs_def truthy_simps
        sample_fill_truthy sample_fill startsWith_def)
  from resolveTextColor_first_populated [of tinycolor_ref plain_run paragraph_level1
         "body_of paragraph_level1" empty_context]
       resolveTextColor_first_populated [of tinycolor_ref plain_run paragraph_with_default
         "body_of paragraph_with_default" empty_context]
       a b
  show ?thesis by simp
qed

subsection \<open>Text or shape\<close>

lemma hasText_samples:
  "hasText (r\<lparr>run_text := '' a ''\<rparr>)" "\<not> hasText (r\<lparr>run_text := ''   ''\<rparr>)"
  "\<not> hasText (r\<lparr>run_text := []\<rparr>)"
proof -
  have "js_trim '' a '' = ''a''" "js_trim ''   '' = []" "js_trim [] = []"
    by code_simp+
  then show "hasText (r\<lparr>run_text := '' a ''\<rparr>)" "\<not> hasText (r\<lparr>run_text := ''   ''\<rparr>)"
    "\<not> hasText (r\<lparr>run_text := []\<rparr>)"
    by (simp_all add: hasText_def)
qed

lemma one_run_paragraphs:
  "parseTextBodyToParagraphs e (XObj None [(''a:p'', XObj None [(''a:r'', XObj None [(''a:t'', t)])])]) context
     = Inr [paragraphFields (XObj None [(''a:r'', XObj None [(''a:t'', t)])])
              [runFields (numberToString e) (XObj None [(''a:t'', t)]) None]]"
  "parseTextBodyToParagraphs_single_file e
       (XObj None [(''a:p'', XObj None [(''a:r'', XObj None [(''a:t'', t)])])]) context
     = Inr [paragraphFields (XObj None [(''a:r'', XObj None [(''a:t'', t)])])
              [runFields (numberToString e) (XObj None [(''a:t'', t)]) None]]"
  by (simp_all add: parseTextBodyToParagraphs_def parseParagraph_def parseRun_def
      parseTextBodyToParagraphs_single_file_def parseParagraph_single_file_def
      parseRun_single_file_def paragraphArray_def runArray_def resolveTextColor_def
      runColor_single_file_def truthy_def child_def as_array_def attr_def attrs_def Let_def)

lemma one_run_text:
  "par_runs (paragraphFields p [runFields numStr (XObj None [(''a:t'', t)]) c])
     = [(runFields numStr (XObj None [(''a:t'', t)]) c)
          \<lparr>run_text := js_String numStr (if truthy t then t else XStr [])\<rparr>]"
  by (simp add: paragraphFields_def runFields_def child_def Let_def)

lemma shape_with_text_type:
  "map_sum id (map_option element_type) (parseShapeWith textBody e uuid (shape_with_text t) context)
     = (case textBody (XObj None [(''a:p'', XObj None [(''a:r'', XObj None [(''a:t'', t)])])]) context of
          Inl err \<Rightarrow> Inl err
        | Inr paragraphs \<Rightarrow>
            Inr (Some (if list_ex (\<lambda>p. list_ex hasText (par_runs p)) paragraphs
                       then ''text'' else ''shape'')))"
  by (simp add: parseShapeWith_def shape_with_text_def child_def truthy_def attr_def attrs_def
      attrs_or_empty_def str_or_def parseOutline_def Let_def split: sum.splits)

text \<open>
  C3. A shape whose only run holds the text \<^verbatim>\<open>0\<close> has a run with text that is not white
  space. The normaliser hands that text over as the number 0, the run loop replaces a
  falsy text by the empty string, and both copies of \<open>parseShape\<close> return a shape
  element, not a text element; the text \<^verbatim>\<open>false\<close> goes the same way. On the two
  strings of the boundary test the parser answers as the specification says: a text
  element for \<^verbatim>\<open>" a "\<close> and a shape element for three spaces.
\<close>

theorem parseShape_numeric_text_is_shape:
  "map_sum id (map_option element_type) (parseShape e uuid (shape_with_text (XNum 0)) context)
     = Inr (Some ''shape'')
   \<and> map_sum id (map_option element_type)
       (parseShape_single_file e uuid (shape_with_text (XNum 0)) context)
     = Inr (Some ''shape'')
   \<and> map_sum id (map_option element_type) (parseShape e uuid (shape_with_text (XBool False)) context)
     = Inr (Some ''shape'')
   \<and> map_sum id (map_option element_type) (parseShape e uuid (shape_with_text (XStr '' a '')) context)
     = Inr (Some ''text'')
   \<and> map_sum id (map_option element_type) (parseShape e uuid (shape_with_text (XStr ''   '')) context)
     = Inr (Some ''shape'')"
  unfolding parseShape_def parseShape_single_file_def shape_with_text_type one_run_paragraphs
  by (simp add: one_run_text truthy_def hasText_samples)

subsection \<open>Order of the elements of a slide\<close>

text \<open>
  C1. The slide loop visits the keys of the shape tree and, under each key, all the
  elements of that tag. For the children sp 1, pic 2, sp 3, cxnSp 4 in document order
  the normalised tree has one key \<^verbatim>\<open>p:sp\<close> holding both shapes, and the parsed slide
  lists the elements as 1, 3, 2, 4: the two shapes come before the picture.
\<close>

theorem parseSingleSlide_groups_same_tag:
  "map_sum id (\<lambda>slide. map (\<lambda>el. (element_type el, element_id el)) (slide_elements slide))
     (parseSingleSlide e uuids 1 (slide_of_children interleaved_children))
   = Inr [(''shape'', ''1''), (''shape'', ''3''), (''image'', ''2''), (''line'', ''4'')]"
proof -
  have n: "normalize_children interleaved_children =
             XObj None [(''p:nvGrpSpPr'', XStr []), (''p:grpSpPr'', XStr []),
                        (''p:sp'', XArr [sp_node ''1'', sp_node ''3'']),
                        (''p:pic'', pic_node ''2''), (''p:cxnSp'', cxn_node ''4'')]"
    by (simp add: normalize_children_def interleaved_children_def sp_node_def)
  have sp: "parseItem e ctx u ''p:sp'' (sp_node i) =
              Inr (Some (ShapeElement i (parseTransform XUndef) None
                \<lparr>sh_shapeType = ''rect'', sh_adj = None, sh_fill = None, sh_fillOpacity = None,
                 sh_outline = None,
                 sh_path = generateShapePath e ''rect''
                             (num_mul (num_of_int (t_width (parseTransform XUndef))) (Some RATIO_EMUs_Points))
                             (num_mul (num_of_int (t_height (parseTransform XUndef))) (Some RATIO_EMUs_Points))
                             None\<rparr>))" if "i \<noteq> []" for ctx u i
    using that
    by (simp add: parseItem_def parseShape_def parseShapeWith_def sp_node_def child_def
        attrs_or_empty_def attrs_def attr_def truthy_def str_or_def parseOutline_def Let_def)
  have pic: "parseItem e ctx u ''p:pic'' (pic_node i) =
               Inr (Some (ImageElement i (parseTransform XUndef) None ''rId1''))" if "i \<noteq> []" for ctx u i
    using that
    by (simp add: parseItem_def parsePicture_def pic_node_def child_def attrs_or_empty_def attrs_def
        attr_def str_truthy_def str_or_def Let_def)
  have cxn: "\<exists>f. parseItem e ctx u ''p:cxnSp'' (cxn_node i) =
               Inr (Some (LineElement i (parseTransform XUndef) None f))" if "i \<noteq> []" for ctx u i
    using that
    by (simp add: parseItem_def parseConnector_def cxn_node_def child_def attrs_or_empty_def attrs_def
        attr_def truthy_def str_truthy_def str_or_def Let_def)
  obtain f where cxn4: "parseItem e (slide_of_children interleaved_children) (uuids (Suc (Suc (Suc 0)))) ''p:cxnSp'' (cxn_node ''4'') =
               Inr (Some (LineElement ''4'' (parseTransform XUndef) None f))"
    using cxn [of "''4''"] by auto
  have tree: "child (child (child (slideContent (slide_of_children interleaved_children)) ''p:sld'') ''p:cSld'') ''p:spTree''
              = normalize_children interleaved_children"
    by (simp add: slide_of_children_def child_def)
  have arr: "as_array (XArr xs) = xs" "as_array (pic_node i) = [pic_node i]"
    "as_array (cxn_node i) = [cxn_node i]" for xs i
    by (simp_all add: as_array_def pic_node_def cxn_node_def)
  show ?thesis
    unfolding parseSingleSlide_def tree n
    by (simp add: Let_def truthy_def Object_keys_def startsWith_def child_def arr sp pic cxn4)
qed

end
